theory Spec2Isabelle
  imports Main "HOL-Library.AList"
begin

section \<open>Table schemas of \<open>pathway/internals/schema.py\<close>\<close>

text \<open>
  The development follows \<open>src/python/pathway/internals/schema.py\<close>. Python dictionaries
  are association lists in insertion order with distinct keys (\<open>AList.update\<close> is
  \<open>d[k] = v\<close>: an existing key keeps its position, a new key is appended). Exceptions
  are values of type \<open>exn\<close>, and every function that can raise returns \<open>exn + result\<close>
  with \<open>Inl\<close> for the raised exception.

  The data-type algebra (\<open>pathway.internals.dtype\<close>) is an external collaborator of this
  file. Its data types are a type variable \<open>'d\<close>, and the operations the schema code
  calls (\<open>dt.wrap\<close> on native types, \<open>dtype.typehint\<close>, \<open>dt.dtype_issubclass\<close>) are
  parameters of the functions that call them.
\<close>

subsection \<open>Exceptions\<close>

text \<open>
  Python type objects: the ones the source names, and any other class or type hint by
  its text.
\<close>

datatype pytype = Py_int | Py_float | Py_str | Py_Any | Py_class string

text \<open>
  The payload of an \<open>AssertionError\<close>: a bare \<open>assert\<close> carries no message; the
  assertions of \<open>assert_equal_to\<close> format the values listed here into their message.
  Python formats a set in hash order, so the sets of column names are kept as sets.
\<close>

datatype assert_info =
    NoMessage
  | MissingColumns "string set"
  | TypeMismatch string pytype string pytype string
  | ExtraColumns "string set"
  | PrimaryKeysMismatch "string list option" string "string list option" string

datatype exn =
    ValueError string
  | TypeError string
  | KeyError string
  | IndexError
  | AssertionError assert_info

subsection \<open>Data model\<close>

text \<open>A type annotation is a native type object or a data type of the algebra.\<close>

datatype 'd annotation = Native pytype | DT 'd

text \<open>
  Modelled from the spec: \<open>dt.wrap\<close> (the function is outside this file) wraps a native
  type into a data type; a value that already is a data type is returned as it is.
\<close>

fun wrap :: "(pytype \<Rightarrow> 'd) \<Rightarrow> 'd annotation \<Rightarrow> 'd" where
  "wrap w (Native t) = w t"
| "wrap w (DT d) = d"

text \<open>
  \<open>_no_default_value_marker\<close> is the single instance of \<open>_Undefined\<close>; any other
  default is a value of the user. Python's \<open>==\<close> on data types and default values is
  equality here.
\<close>

datatype 'v default = no_default_value_marker | Value 'v

record SchemaProperties =
  append_only :: bool

record ('d, 'v) ColumnSchema =
  cs_primary_key :: bool
  cs_default_value :: "'v default"
  cs_dtype :: 'd
  cs_name :: string
  cs_append_only :: bool

record ('d, 'v) ColumnDefinition =
  cd_primary_key :: bool
  cd_default_value :: "'v default"
  cd_dtype :: "'d option"
  cd_name :: "string option"

text \<open>
  An attribute of a schema class is a column definition or some other object, kept by
  the text of its type (what \<open>type(column)\<close> prints).
\<close>

datatype ('d, 'v) attr = Definition "('d, 'v) ColumnDefinition" | Object string

text \<open>
  A schema is a class made by \<open>SchemaMetaclass\<close> with \<open>Schema\<close> as its only base. The
  record keeps what the code reads from it: \<open>__name__\<close>, the \<open>__annotations__\<close> of its
  class dictionary, the other entries of the class dictionary it was created from, and
  the attributes \<open>__properties__\<close> and \<open>__columns__\<close> set by \<open>__init__\<close>. The entries
  Python itself adds to a class dictionary, and \<open>__metaclass__\<close>, \<open>__orig__\<close> and the
  attributes set by \<open>__init__\<close>, all start with two underscores and are invisible to
  \<open>_cls_fields\<close>; they are not kept. \<open>__dtypes__\<close> and \<open>__types__\<close> are computed from
  \<open>__columns__\<close> once and never change, so they are functions of it here. The functions
  below are the bodies of the methods of the metaclass and of the functions of the
  module.
\<close>

record ('d, 'v) Schema =
  schema_name :: string
  annotations :: "(string \<times> 'd annotation) list"
  namespace :: "(string \<times> ('d, 'v) attr) list"
  properties :: SchemaProperties
  columns :: "(string \<times> ('d, 'v) ColumnSchema) list"

definition keys :: "('d, 'v) Schema \<Rightarrow> string list" where
  "keys S = map fst (columns S)"

definition dtypes :: "('d, 'v) Schema \<Rightarrow> (string \<times> 'd) list" where
  "dtypes S = map (\<lambda>(name, column). (name, cs_dtype column)) (columns S)"

definition typehints :: "('d \<Rightarrow> pytype) \<Rightarrow> ('d, 'v) Schema \<Rightarrow> (string \<times> pytype) list" where
  "typehints typehint S = map (\<lambda>(k, v). (k, typehint v)) (dtypes S)"

definition primary_key_columns :: "('d, 'v) Schema \<Rightarrow> string list option" where
  "primary_key_columns S =
     (let pkey_fields = map fst (filter (\<lambda>(name, column). cs_primary_key column) (columns S))
      in if pkey_fields \<noteq> [] then Some pkey_fields else None)"

text \<open>\<open>d[k]\<close> on a dictionary: \<open>KeyError\<close> when the key is absent.\<close>

definition getitem :: "(string \<times> 'a) list \<Rightarrow> string \<Rightarrow> exn + 'a" where
  "getitem d k = (case map_of d k of None \<Rightarrow> Inl (KeyError k) | Some v \<Rightarrow> Inr v)"

text \<open>
  A call \<open>S.m()\<close> of a method \<open>m\<close> of the metaclass on a schema \<open>S\<close>. Python looks the
  attribute up in the class dictionary of \<open>S\<close> before it reaches the methods of the
  metaclass, so an entry that the class dictionary holds under the name \<open>m\<close> is what is
  called: a column definition is not callable, and the call raises \<open>TypeError\<close>. (In a
  schema that the metaclass has built, an entry whose name does not start with two
  underscores is a column definition; any other object is taken to be not callable
  either.) Without such an entry the method is found and returns \<open>result\<close>. The
  attributes \<open>__columns__\<close>, \<open>__properties__\<close>, \<open>__dtypes__\<close> and \<open>__types__\<close> are set by
  \<open>__init__\<close> after the class is made and \<open>__name__\<close> is kept by Python itself, so
  reading them never finds a column.
\<close>

definition call_method :: "string \<Rightarrow> ('d, 'v) Schema \<Rightarrow> 'a \<Rightarrow> exn + 'a" where
  "call_method m S result =
     (case map_of (namespace S) m of
        None \<Rightarrow> Inr result
      | Some (Definition cd) \<Rightarrow>
          Inl (TypeError (CHR 0x27 # ''ColumnDefinition'' @ CHR 0x27 # '' object is not callable''))
      | Some (Object ty) \<Rightarrow> Inl (TypeError (ty @ '' object is not callable'')))"

subsection \<open>Equality and hashing\<close>

definition as_tuple ::
  "('d, 'v) Schema \<Rightarrow> SchemaProperties \<times> (string \<times> ('d, 'v) ColumnSchema) list" where
  "as_tuple S = (properties S, columns S)"

text \<open>
  \<open>__eq__\<close> on two schemas: \<open>self._as_tuple() == other._as_tuple()\<close>, the two calls
  from left to right.
\<close>

definition schema_eq :: "('d, 'v) Schema \<Rightarrow> ('d, 'v) Schema \<Rightarrow> exn + bool" where
  "schema_eq S other =
     (case call_method ''_as_tuple'' S (as_tuple S) of
        Inl e \<Rightarrow> Inl e
      | Inr t \<Rightarrow>
          (case call_method ''_as_tuple'' other (as_tuple other) of
             Inl e \<Rightarrow> Inl e
           | Inr t' \<Rightarrow> Inr (t = t')))"

text \<open>
  Python's hashing of strings, tuples and the values of the collaborators is outside this
  file: the record \<open>py_hash\<close> holds it. A hash of a data type or of a default value may
  raise (\<open>TypeError\<close> for an unhashable object). The hash of a frozen dataclass is the
  hash of the tuple of its fields; \<open>hash(False) = 0\<close> and \<open>hash(True) = 1\<close>.
\<close>

record ('d, 'v) py_hash =
  hash_str :: "string \<Rightarrow> int"
  hash_tuple :: "int list \<Rightarrow> int"
  hash_dtype :: "'d \<Rightarrow> exn + int"
  hash_value :: "'v \<Rightarrow> exn + int"
  hash_undefined :: int

definition hash_bool :: "bool \<Rightarrow> int" where
  "hash_bool b = (if b then 1 else 0)"

text \<open>The hashes of the items of a tuple, left to right; the first exception ends it.\<close>

fun collect :: "('e + 'a) list \<Rightarrow> 'e + 'a list" where
  "collect [] = Inr []"
| "collect (x # xs) =
     (case x of Inl e \<Rightarrow> Inl e
      | Inr v \<Rightarrow> (case collect xs of Inl e \<Rightarrow> Inl e | Inr vs \<Rightarrow> Inr (v # vs)))"

definition hash_default :: "('d, 'v) py_hash \<Rightarrow> 'v default \<Rightarrow> exn + int" where
  "hash_default H x =
     (case x of no_default_value_marker \<Rightarrow> Inr (hash_undefined H) | Value v \<Rightarrow> hash_value H v)"

definition hash_ColumnSchema ::
  "('d, 'v) py_hash \<Rightarrow> ('d, 'v) ColumnSchema \<Rightarrow> exn + int" where
  "hash_ColumnSchema H c =
     (case collect [Inr (hash_bool (cs_primary_key c)), hash_default H (cs_default_value c),
                    hash_dtype H (cs_dtype c), Inr (hash_str H (cs_name c)),
                    Inr (hash_bool (cs_append_only c))] of
        Inl e \<Rightarrow> Inl e
      | Inr hs \<Rightarrow> Inr (hash_tuple H hs))"

definition hash_SchemaProperties :: "('d, 'v) py_hash \<Rightarrow> SchemaProperties \<Rightarrow> int" where
  "hash_SchemaProperties H p = hash_tuple H [hash_bool (append_only p)]"

definition hash_item ::
  "('d, 'v) py_hash \<Rightarrow> string \<times> ('d, 'v) ColumnSchema \<Rightarrow> exn + int" where
  "hash_item H item =
     (case hash_ColumnSchema H (snd item) of
        Inl e \<Rightarrow> Inl e
      | Inr h \<Rightarrow> Inr (hash_tuple H [hash_str H (fst item), h]))"

definition hash_as_tuple ::
  "('d, 'v) py_hash \<Rightarrow> SchemaProperties \<times> (string \<times> ('d, 'v) ColumnSchema) list
     \<Rightarrow> exn + int" where
  "hash_as_tuple H t =
     (case collect (map (hash_item H) (snd t)) of
        Inl e \<Rightarrow> Inl e
      | Inr hs \<Rightarrow> Inr (hash_tuple H [hash_SchemaProperties H (fst t), hash_tuple H hs]))"

text \<open>\<open>__hash__\<close>: \<open>hash(self._as_tuple())\<close>.\<close>

definition schema_hash :: "('d, 'v) py_hash \<Rightarrow> ('d, 'v) Schema \<Rightarrow> exn + int" where
  "schema_hash H S =
     (case call_method ''_as_tuple'' S (as_tuple S) of
        Inl e \<Rightarrow> Inl e
      | Inr t \<Rightarrow> hash_as_tuple H t)"

subsection \<open>Sub-schema test\<close>

text \<open>
  \<open>left.keys() != right.keys()\<close> calls the method \<open>keys\<close> on both schemas and compares
  the two key views as sets. The loop returns at the first column whose data type is not
  a subclass; \<open>left.__dtypes__\<close> and \<open>right.__dtypes__\<close> are read as attributes.
\<close>

fun is_subschema_loop ::
  "('d \<Rightarrow> 'd \<Rightarrow> bool) \<Rightarrow> (string \<times> 'd) list \<Rightarrow> (string \<times> 'd) list \<Rightarrow> string list
     \<Rightarrow> exn + bool" where
  "is_subschema_loop dtype_issubclass ld rd [] = Inr True"
| "is_subschema_loop dtype_issubclass ld rd (k # ks) =
     (case getitem ld k of
        Inl e \<Rightarrow> Inl e
      | Inr l \<Rightarrow>
          (case getitem rd k of
             Inl e \<Rightarrow> Inl e
           | Inr r \<Rightarrow>
               if \<not> dtype_issubclass l r then Inr False
               else is_subschema_loop dtype_issubclass ld rd ks))"

definition is_subschema ::
  "('d \<Rightarrow> 'd \<Rightarrow> bool) \<Rightarrow> ('d, 'v) Schema \<Rightarrow> ('d, 'v) Schema \<Rightarrow> exn + bool" where
  "is_subschema dtype_issubclass left right =
     (case call_method ''keys'' left (keys left) of
        Inl e \<Rightarrow> Inl e
      | Inr left_keys \<Rightarrow>
          (case call_method ''keys'' right (keys right) of
             Inl e \<Rightarrow> Inl e
           | Inr right_keys \<Rightarrow>
               if set left_keys \<noteq> set right_keys then Inr False
               else
                 (case call_method ''keys'' left (keys left) of
                    Inl e \<Rightarrow> Inl e
                  | Inr ks \<Rightarrow>
                      is_subschema_loop dtype_issubclass (dtypes left) (dtypes right) ks)))"

subsection \<open>Compatibility assertion\<close>

text \<open>
  The loop of \<open>assert_equal_to\<close> over the columns of \<open>other\<close>. The asserted expression
  \<open>other_dict[col] == self_dict[col]\<close> reads \<open>other_dict\<close> first, then \<open>self_dict\<close>.
  \<open>assert_equal_to\<close> itself calls the methods \<open>typehints\<close> and, when the primary keys
  are compared, \<open>primary_key_columns\<close> on both schemas.
\<close>

fun check_types ::
  "(string \<times> pytype) list \<Rightarrow> (string \<times> pytype) list \<Rightarrow> string \<Rightarrow> string \<Rightarrow> string list
     \<Rightarrow> exn + unit" where
  "check_types self_dict other_dict self_name other_name [] = Inr ()"
| "check_types self_dict other_dict self_name other_name (col # cols) =
     (case getitem other_dict col of
        Inl e \<Rightarrow> Inl e
      | Inr t_other \<Rightarrow>
          (case getitem self_dict col of
             Inl e \<Rightarrow> Inl e
           | Inr t_self \<Rightarrow>
               if t_other = t_self
               then check_types self_dict other_dict self_name other_name cols
               else Inl (AssertionError
                           (TypeMismatch col t_self self_name t_other other_name))))"

definition assert_equal_to ::
  "('d \<Rightarrow> pytype) \<Rightarrow> ('d, 'v) Schema \<Rightarrow> ('d, 'v) Schema \<Rightarrow> bool \<Rightarrow> bool \<Rightarrow> exn + unit" where
  "assert_equal_to typehint self other allow_superset ignore_primary_keys =
     (case call_method ''typehints'' self (typehints typehint self) of
        Inl e \<Rightarrow> Inl e
      | Inr self_dict \<Rightarrow>
     (case call_method ''typehints'' other (typehints typehint other) of
        Inl e \<Rightarrow> Inl e
      | Inr other_dict \<Rightarrow>
         if set (map fst self_dict) \<subset> set (map fst other_dict)
         then Inl (AssertionError
                     (MissingColumns (set (map fst other_dict) - set (map fst self_dict))))
         else
           (case check_types self_dict other_dict (schema_name self) (schema_name other)
                   (map fst other_dict) of
              Inl e \<Rightarrow> Inl e
            | Inr u \<Rightarrow>
                if \<not> allow_superset \<and> set (map fst other_dict) \<subset> set (map fst self_dict)
                then Inl (AssertionError
                            (ExtraColumns (set (map fst self_dict) - set (map fst other_dict))))
                else if \<not> ignore_primary_keys
                then
                  (case call_method ''primary_key_columns'' self (primary_key_columns self) of
                     Inl e \<Rightarrow> Inl e
                   | Inr pk_self \<Rightarrow>
                  (case call_method ''primary_key_columns'' other
                          (primary_key_columns other) of
                     Inl e \<Rightarrow> Inl e
                   | Inr pk_other \<Rightarrow>
                       if pk_self \<noteq> pk_other
                       then Inl (AssertionError
                                   (PrimaryKeysMismatch pk_self (schema_name self)
                                      pk_other (schema_name other)))
                       else Inr ()))
                else Inr ())))"

subsection \<open>Construction\<close>

fun join :: "string \<Rightarrow> string list \<Rightarrow> string" where
  "join sep [] = []"
| "join sep [x] = x"
| "join sep (x # y # zs) = x @ sep @ join sep (y # zs)"

definition startswith :: "string \<Rightarrow> string \<Rightarrow> bool" where
  "startswith k p = (take (length p) k = p)"

definition cls_fields :: "(string \<times> 'a) list \<Rightarrow> (string \<times> 'a) list" where
  "cls_fields d = filter (\<lambda>(k, v). \<not> startswith k ''__'') d"

definition column_definition ::
  "(pytype \<Rightarrow> 'd) \<Rightarrow> bool \<Rightarrow> 'v default \<Rightarrow> 'd annotation option \<Rightarrow> string option
     \<Rightarrow> ('d, 'v) ColumnDefinition" where
  "column_definition w primary_key default_value dtype name =
     \<lparr>cd_primary_key = primary_key, cd_default_value = default_value,
      cd_dtype = (case dtype of None \<Rightarrow> None | Some t \<Rightarrow> Some (wrap w t)),
      cd_name = name\<rparr>"

definition to_definition :: "('d, 'v) ColumnSchema \<Rightarrow> ('d, 'v) ColumnDefinition" where
  "to_definition c =
     \<lparr>cd_primary_key = cs_primary_key c, cd_default_value = cs_default_value c,
      cd_dtype = Some (cs_dtype c), cd_name = Some (cs_name c)\<rparr>"

text \<open>
  The loop of \<open>_create_column_definitions\<close> over the annotations, with the dictionaries
  \<open>fields\<close> (popped) and \<open>columns\<close> (filled) as its state. \<open>column.name or name\<close> takes
  the attribute name when the definition's name is \<open>None\<close> or the empty string.
\<close>

fun create_loop ::
  "(pytype \<Rightarrow> 'd) \<Rightarrow> bool \<Rightarrow> (string \<times> 'd annotation) list \<Rightarrow> (string \<times> ('d, 'v) attr) list
     \<Rightarrow> (string \<times> ('d, 'v) ColumnSchema) list
     \<Rightarrow> exn + ((string \<times> ('d, 'v) attr) list \<times> (string \<times> ('d, 'v) ColumnSchema) list)" where
  "create_loop w ao [] flds cols = Inr (flds, cols)"
| "create_loop w ao ((name, annotation) # rest) flds cols =
     (let col_dtype = wrap w annotation;
          column = (case map_of flds name of
                      Some v \<Rightarrow> v
                    | None \<Rightarrow> Definition (column_definition w False no_default_value_marker
                                             (Some (DT col_dtype)) None));
          flds' = AList.delete name flds
      in case column of
           Object ty \<Rightarrow>
             Inl (ValueError (''`'' @ name @ ''` should be a column definition, found '' @ ty))
         | Definition cd \<Rightarrow>
             (let dtype = (case cd_dtype cd of None \<Rightarrow> col_dtype | Some d \<Rightarrow> d)
              in if col_dtype \<noteq> dtype
                 then Inl (TypeError (''type annotation of column `'' @ name
                                        @ ''` does not match column definition''))
                 else
                   (let name' = (case cd_name cd of
                                   None \<Rightarrow> name
                                 | Some n \<Rightarrow> if n = [] then name else n)
                    in create_loop w ao rest flds'
                         (AList.update name'
                            \<lparr>cs_primary_key = cd_primary_key cd,
                             cs_default_value = cd_default_value cd,
                             cs_dtype = wrap w (DT dtype), cs_name = name',
                             cs_append_only = ao\<rparr> cols))))"

text \<open>
  \<open>_create_column_definitions(schema)\<close>: \<open>get_type_hints\<close> gives the class's
  annotations, \<open>_cls_fields\<close> its attributes that do not start with two underscores, and
  \<open>schema.__properties__.append_only\<close> is set before the call.
\<close>

definition create_column_definitions ::
  "(pytype \<Rightarrow> 'd) \<Rightarrow> (string \<times> 'd annotation) list \<Rightarrow> (string \<times> ('d, 'v) attr) list \<Rightarrow> bool
     \<Rightarrow> exn + (string \<times> ('d, 'v) ColumnSchema) list" where
  "create_column_definitions w annots ns ao =
     (case create_loop w ao annots (cls_fields ns) [] of
        Inl e \<Rightarrow> Inl e
      | Inr (flds, cols) \<Rightarrow>
          if flds \<noteq> []
          then Inl (ValueError (''definitions of columns '' @ join '', '' (map fst flds)
                                  @ '' lack type annotation''))
          else Inr cols)"

text \<open>
  \<open>SchemaMetaclass(name, (Schema,), dict, append_only=...)\<close>: the class and its
  \<open>__init__\<close>. \<open>schema_builder_internal\<close> is \<open>_schema_builder\<close>.
\<close>

definition SchemaMetaclass ::
  "(pytype \<Rightarrow> 'd) \<Rightarrow> string \<Rightarrow> (string \<times> 'd annotation) list \<Rightarrow> (string \<times> ('d, 'v) attr) list
     \<Rightarrow> bool \<Rightarrow> exn + ('d, 'v) Schema" where
  "SchemaMetaclass w name annots ns ao =
     (case create_column_definitions w annots ns ao of
        Inl e \<Rightarrow> Inl e
      | Inr cols \<Rightarrow>
          Inr \<lparr>schema_name = name, annotations = annots, namespace = ns,
               properties = \<lparr>append_only = ao\<rparr>, columns = cols\<rparr>)"

definition schema_builder_internal ::
  "(pytype \<Rightarrow> 'd) \<Rightarrow> string \<Rightarrow> (string \<times> 'd annotation) list \<Rightarrow> (string \<times> ('d, 'v) attr) list
     \<Rightarrow> SchemaProperties \<Rightarrow> exn + ('d, 'v) Schema" where
  "schema_builder_internal w name annots ns props =
     SchemaMetaclass w name annots ns (append_only props)"

text \<open>
  \<open>schema_builder\<close>. \<open>str(list(columns.keys()))\<close> needs Python's \<open>repr\<close> of a string,
  a parameter. The class dictionary is \<open>__annotations__\<close> and the columns themselves
  (a column filed under \<open>__annotations__\<close> itself, or under another name that Python
  reads when it creates a class, is not covered). \<open>c.dtype or Any\<close> takes \<open>Any\<close> when
  the definition has no data type.
\<close>

definition str_list :: "(string \<Rightarrow> string) \<Rightarrow> string list \<Rightarrow> string" where
  "str_list repr ks = ''['' @ join '', '' (map repr ks) @ '']''"

definition schema_builder ::
  "(pytype \<Rightarrow> 'd) \<Rightarrow> (string \<Rightarrow> string) \<Rightarrow> (string \<times> ('d, 'v) ColumnDefinition) list
     \<Rightarrow> string option \<Rightarrow> SchemaProperties \<Rightarrow> exn + ('d, 'v) Schema" where
  "schema_builder w repr cols name props =
     (let name' = (case name of
                     None \<Rightarrow> ''custom_schema('' @ str_list repr (map fst cols) @ '')''
                   | Some n \<Rightarrow> n);
          annots = map (\<lambda>(name, c). (name, case cd_dtype c of
                                               Some d \<Rightarrow> DT d
                                             | None \<Rightarrow> Native Py_Any)) cols;
          dict = map (\<lambda>(name, c). (name, Definition c)) cols
      in schema_builder_internal w name' annots dict props)"

subsection \<open>\<open>update_types\<close>\<close>

fun update_types_loop ::
  "(pytype \<Rightarrow> 'd) \<Rightarrow> (string \<times> 'd annotation) list \<Rightarrow> (string \<times> ('d, 'v) ColumnDefinition) list
     \<Rightarrow> exn + (string \<times> ('d, 'v) ColumnDefinition) list" where
  "update_types_loop w [] cols = Inr cols"
| "update_types_loop w ((name, dtype) # kwargs) cols =
     (case map_of cols name of
        None \<Rightarrow>
          Inl (ValueError
            ''Schema.update_types() argument name has to be an existing column name.'')
      | Some c \<Rightarrow>
          update_types_loop w kwargs
            (AList.update name (c\<lparr>cd_dtype := Some (wrap w dtype)\<rparr>) cols))"

definition update_types ::
  "(pytype \<Rightarrow> 'd) \<Rightarrow> (string \<Rightarrow> string) \<Rightarrow> ('d, 'v) Schema \<Rightarrow> (string \<times> 'd annotation) list
     \<Rightarrow> exn + ('d, 'v) Schema" where
  "update_types w repr S kwargs =
     (let cols = fold (\<lambda>col d. AList.update (cs_name col) (to_definition col) d)
                   (map snd (columns S)) []
      in case update_types_loop w kwargs cols of
           Inl e \<Rightarrow> Inl e
         | Inr cols' \<Rightarrow> schema_builder w repr cols' None (properties S))"

subsection \<open>\<open>schema_add\<close>\<close>

text \<open>
  \<open>dict(ChainMap(*maps))\<close>: a \<open>ChainMap\<close> iterates the keys of its last map first, then
  the new keys of the maps before it, and looks a key up in the first map that has it.
\<close>

definition chainmap_keys :: "(string \<times> 'a) list list \<Rightarrow> string list" where
  "chainmap_keys maps =
     fold (\<lambda>m d. fold (\<lambda>k d. if k \<in> set d then d else d @ [k]) (map fst m) d) (rev maps) []"

fun chainmap_get :: "(string \<times> 'a) list list \<Rightarrow> string \<Rightarrow> 'a option" where
  "chainmap_get [] k = None"
| "chainmap_get (m # maps) k =
     (case map_of m k of Some v \<Rightarrow> Some v | None \<Rightarrow> chainmap_get maps k)"

definition dict_ChainMap :: "(string \<times> 'a) list list \<Rightarrow> (string \<times> 'a) list" where
  "dict_ChainMap maps =
     List.map_filter (\<lambda>k. map_option (Pair k) (chainmap_get maps k)) (chainmap_keys maps)"

definition schema_add ::
  "(pytype \<Rightarrow> 'd) \<Rightarrow> ('d, 'v) Schema list \<Rightarrow> exn + ('d, 'v) Schema" where
  "schema_add w schemas =
     (let annots_list = map annotations schemas;
          annots = dict_ChainMap annots_list
      in if length annots \<noteq> sum_list (map length annots_list)
         then Inl (AssertionError NoMessage)
         else
           (let fields_list = map (\<lambda>schema. cls_fields (namespace schema)) schemas;
                flds = dict_ChainMap fields_list
            in if length flds \<noteq> sum_list (map length fields_list)
               then Inl (AssertionError NoMessage)
               else schema_builder_internal w (join ''_'' (map schema_name schemas))
                      annots flds \<lparr>append_only = False\<rparr>))"

subsection \<open>Inference from a pandas sample\<close>

text \<open>
  Modelled from the spec: the well-known constants of the data-type algebra and its
  \<open>Optional\<close> constructor (the module \<open>pathway.internals.dtype\<close> is outside this file).
  \<open>INT_dt\<close> is \<open>dt.INT\<close> and \<open>STR_dt\<close> is \<open>dt.STR\<close>.
\<close>

datatype DType =
    INT_dt | FLOAT | BOOL | STR_dt | ANY | NONE | ARRAY | ANY_TUPLE
  | DATE_TIME_NAIVE | DATE_TIME_UTC | DURATION
  | Optional DType

text \<open>
  A pandas \<open>Series\<close> as \<open>_type_converter\<close> sees it: for each value, the answers of the
  four element-wise tests, and for the series' storage type the answers of the
  \<open>pd.api.types\<close> predicates and whether \<open>series.dt.tz\<close> is \<open>None\<close>.
\<close>

record cell =
  is_tuple_or_list :: bool
  isna :: bool
  isnull :: bool
  is_ndarray :: bool

record Series =
  cells :: "cell list"
  is_integer_dtype :: bool
  is_float_dtype :: bool
  is_bool_dtype :: bool
  is_string_dtype :: bool
  is_datetime64_ns_dtype :: bool
  tz_is_None :: bool
  is_timedelta64_dtype :: bool
  is_object_dtype :: bool

text \<open>The chain of \<open>if\<close>/\<open>elif\<close> on the storage type, which sets \<open>ret_type\<close>.\<close>

definition ret_type :: "Series \<Rightarrow> DType" where
  "ret_type series =
     (if is_integer_dtype series then INT_dt
      else if is_float_dtype series then FLOAT
      else if is_bool_dtype series then BOOL
      else if is_string_dtype series then STR_dt
      else if is_datetime64_ns_dtype series then
        (if tz_is_None series then DATE_TIME_NAIVE else DATE_TIME_UTC)
      else if is_timedelta64_dtype series then DURATION
      else if is_object_dtype series then ANY
      else ANY)"

definition type_converter :: "Series \<Rightarrow> DType" where
  "type_converter series =
     (if list_all is_tuple_or_list (cells series) then ANY_TUPLE
      else if list_all (\<lambda>x. isna x \<or> isnull x) (cells series) then NONE
      else if list_all is_ndarray (cells series) then ARRAY
      else if list_ex isna (cells series) \<or> list_ex isnull (cells series)
           then Optional (ret_type series)
           else ret_type series)"

subsection \<open>Inference from a CSV file\<close>

text \<open>
  \<open>_is_parsable_to(s, parse_fun)\<close> catches \<open>ValueError\<close> only; any other exception of
  \<open>parse_fun\<close> goes through. \<open>all(... for s in entries)\<close> stops at the first \<open>False\<close>.
\<close>

definition is_parsable_to :: "'s \<Rightarrow> ('s \<Rightarrow> exn + 'r) \<Rightarrow> exn + bool" where
  "is_parsable_to s parse_fun =
     (case parse_fun s of
        Inr v \<Rightarrow> Inr True
      | Inl (ValueError m) \<Rightarrow> Inr False
      | Inl e \<Rightarrow> Inl e)"

fun all_parsable :: "('s \<Rightarrow> exn + 'r) \<Rightarrow> 's list \<Rightarrow> exn + bool" where
  "all_parsable parse_fun [] = Inr True"
| "all_parsable parse_fun (s # entries) =
     (case is_parsable_to s parse_fun of
        Inl e \<Rightarrow> Inl e
      | Inr b \<Rightarrow> if b then all_parsable parse_fun entries else Inr False)"

text \<open>\<open>choose_type\<close>, with Python's \<open>int\<close> and \<open>float\<close> as the parameters \<open>py_int\<close> and \<open>py_float\<close>.\<close>

definition choose_type ::
  "('s \<Rightarrow> exn + 'i) \<Rightarrow> ('s \<Rightarrow> exn + 'f) \<Rightarrow> 's list \<Rightarrow> exn + pytype" where
  "choose_type int_fun float_fun entries =
     (if length entries = 0 then Inr Py_Any
      else
        (case all_parsable int_fun entries of
           Inl e \<Rightarrow> Inl e
         | Inr b \<Rightarrow>
             if b then Inr Py_int
             else
               (case all_parsable float_fun entries of
                  Inl e \<Rightarrow> Inl e
                | Inr b' \<Rightarrow> if b' then Inr Py_float else Inr Py_str)))"

text \<open>
  Characters stand for the code points below 256. \<open>str.lstrip()\<close> removes leading
  white space: the code points 9 to 13, 28 to 32, 133 and 160.
\<close>

definition isspace :: "char \<Rightarrow> bool" where
  "isspace c = ((of_char c :: nat) \<in> set [9, 10, 11, 12, 13, 28, 29, 30, 31, 32, 133, 160])"

definition lstrip :: "string \<Rightarrow> string" where
  "lstrip s = dropWhile isspace s"

text \<open>
  The generator \<open>remove_comments_from_file\<close> run to its end on the lines of the file:
  the list of what it does, in order; \<open>Inr line\<close> is a line it yields and \<open>Inl e\<close> an
  exception it raises, after which it does nothing more. A consumer that stops asking
  sees a prefix of this list only. \<open>line.lstrip()[0]\<close> raises \<open>IndexError\<close> on the empty
  string; its value is a string of one character, compared with \<open>comment_char\<close>.
\<close>

fun remove_comments_from_file :: "string list \<Rightarrow> string option \<Rightarrow> (exn + string) list" where
  "remove_comments_from_file [] comment_char = []"
| "remove_comments_from_file (line # f) comment_char =
     (case lstrip line of
        [] \<Rightarrow> [Inl IndexError]
      | c # cs \<Rightarrow>
          if Some [c] \<noteq> comment_char
          then Inr line # remove_comments_from_file f comment_char
          else remove_comments_from_file f comment_char)"

text \<open>
  \<open>csv.DictReader\<close> over the generator. The parser of one line, \<open>csv.reader\<close> with the
  given delimiter and escape character and \<open>QUOTE_NONE\<close>, is the parameter
  \<open>parse_line\<close> (one record for each line the generator yields; a record that goes on
  after an escaped line end, and the parser's own \<open>csv.Error\<close>, are not covered). A row
  shorter than the header has \<open>None\<close> under the missing names; the values beyond the
  header are kept under the key \<open>None\<close>, which is no column name, and are not kept here.
\<close>

definition row_dict :: "string list \<Rightarrow> string list \<Rightarrow> (string \<times> string option) list" where
  "row_dict fieldnames row =
     fold (\<lambda>(k, v) d. AList.update k v d)
       (zip fieldnames (map Some row) @ map (\<lambda>k. (k, None)) (drop (length row) fieldnames)) []"

text \<open>
  The rows \<open>list(csv_reader)\<close> (\<open>cap = None\<close>) or
  \<open>list(itertools.islice(csv_reader, num_parsed_rows))\<close> collects: \<open>islice\<close> asks for
  nothing once its count is used up, and \<open>DictReader\<close> skips the records that are \<open>[]\<close>.
\<close>

fun dict_rows ::
  "(string \<Rightarrow> string list) \<Rightarrow> string list \<Rightarrow> nat option \<Rightarrow> (exn + string) list
     \<Rightarrow> exn + (string \<times> string option) list list" where
  "dict_rows parse_line fieldnames cap [] = Inr []"
| "dict_rows parse_line fieldnames cap (x # xs) =
     (if cap = Some 0 then Inr []
      else
        (case x of
           Inl e \<Rightarrow> Inl e
         | Inr line \<Rightarrow>
             (let row = parse_line line
              in if row = [] then dict_rows parse_line fieldnames cap xs
                 else
                   (case dict_rows parse_line fieldnames (map_option (\<lambda>n. n - 1) cap) xs of
                      Inl e \<Rightarrow> Inl e
                    | Inr rows \<Rightarrow> Inr (row_dict fieldnames row # rows)))))"

fun column_types_loop ::
  "(string option \<Rightarrow> exn + 'i) \<Rightarrow> (string option \<Rightarrow> exn + 'f)
     \<Rightarrow> (string \<times> string option) list list \<Rightarrow> string list \<Rightarrow> (string \<times> pytype) list
     \<Rightarrow> exn + (string \<times> pytype) list" where
  "column_types_loop int_fun float_fun csv_data [] acc = Inr acc"
| "column_types_loop int_fun float_fun csv_data (column_name # column_names) acc =
     (case collect (map (\<lambda>row. getitem row column_name) csv_data) of
        Inl e \<Rightarrow> Inl e
      | Inr entries \<Rightarrow>
          (case choose_type int_fun float_fun entries of
             Inl e \<Rightarrow> Inl e
           | Inr t \<Rightarrow>
               column_types_loop int_fun float_fun csv_data column_names
                 (AList.update column_name t acc)))"

fun columns_loop ::
  "(pytype \<Rightarrow> 'd) \<Rightarrow> (string \<times> pytype) list \<Rightarrow> string list
     \<Rightarrow> (string \<times> ('d, 'v) ColumnDefinition) list
     \<Rightarrow> exn + (string \<times> ('d, 'v) ColumnDefinition) list" where
  "columns_loop w column_types [] acc = Inr acc"
| "columns_loop w column_types (column_name # column_names) acc =
     (case getitem column_types column_name of
        Inl e \<Rightarrow> Inl e
      | Inr t \<Rightarrow>
          columns_loop w column_types column_names
            (AList.update column_name
               (column_definition w False no_default_value_marker (Some (Native t)) None) acc))"

text \<open>
  \<open>schema_from_csv\<close> on the lines of the file at \<open>path\<close>. Reading \<open>fieldnames\<close> asks
  the generator for its first line; no line at all leaves \<open>fieldnames\<close> at \<open>None\<close>.
\<close>

definition schema_from_csv ::
  "(pytype \<Rightarrow> 'd) \<Rightarrow> (string \<Rightarrow> string) \<Rightarrow> (string \<Rightarrow> string list)
     \<Rightarrow> (string option \<Rightarrow> exn + 'i) \<Rightarrow> (string option \<Rightarrow> exn + 'f)
     \<Rightarrow> string list \<Rightarrow> string option \<Rightarrow> SchemaProperties \<Rightarrow> string option \<Rightarrow> nat option
     \<Rightarrow> exn + ('d, 'v) Schema" where
  "schema_from_csv w repr parse_line int_fun float_fun f name props comment_character
     num_parsed_rows =
     (case remove_comments_from_file f comment_character of
        [] \<Rightarrow> Inl (ValueError ''can't generate Schema based on an empty CSV file'')
      | Inl e # rest \<Rightarrow> Inl e
      | Inr header # rest \<Rightarrow>
          (let column_names = parse_line header
           in case dict_rows parse_line column_names num_parsed_rows rest of
                Inl e \<Rightarrow> Inl e
              | Inr csv_data \<Rightarrow>
                  (case column_types_loop int_fun float_fun csv_data column_names [] of
                     Inl e \<Rightarrow> Inl e
                   | Inr column_types \<Rightarrow>
                       (case columns_loop w column_types column_names [] of
                          Inl e \<Rightarrow> Inl e
                        | Inr cols \<Rightarrow> schema_builder w repr cols name props))))"

text \<open>
  What the reader sees of a file before its first line that is empty or white space
  only: the lines before that line that are no comments. The first of them is the
  header; the others are rows, except those the parser takes for the record \<open>[]\<close>.
  With a cap on the rows, the reader stops before that line when the header and as many
  rows as the cap asks for come before it.
\<close>

definition is_comment :: "string option \<Rightarrow> string \<Rightarrow> bool" where
  "is_comment comment_char line =
     (case lstrip line of [] \<Rightarrow> False | c # cs \<Rightarrow> Some [c] = comment_char)"

definition lines_before_blank :: "string option \<Rightarrow> string list \<Rightarrow> string list" where
  "lines_before_blank comment_char f =
     filter (\<lambda>line. \<not> is_comment comment_char line) (takeWhile (\<lambda>line. lstrip line \<noteq> []) f)"

definition stops_before_blank ::
  "(string \<Rightarrow> string list) \<Rightarrow> string option \<Rightarrow> nat option \<Rightarrow> string list \<Rightarrow> bool" where
  "stops_before_blank parse_line comment_char num_parsed_rows f =
     (case lines_before_blank comment_char f of
        [] \<Rightarrow> False
      | header # rows \<Rightarrow>
          (case num_parsed_rows of
             None \<Rightarrow> False
           | Some n \<Rightarrow> n \<le> length (filter (\<lambda>line. parse_line line \<noteq> []) rows)))"

text \<open>
  Python's \<open>int\<close> and \<open>float\<close> on text, for the examples: decimal digits, with single
  underscores between digits, an optional sign and surrounding white space; \<open>float\<close>
  also takes a fraction, an exponent and the words \<open>inf\<close>, \<open>infinity\<close> and \<open>nan\<close>.
  Both raise \<open>ValueError\<close> on any other text and \<open>TypeError\<close> on \<open>None\<close>. The number a
  \<open>float\<close> denotes is not computed.
\<close>

definition isdigit :: "char \<Rightarrow> bool" where
  "isdigit c = (48 \<le> (of_char c :: nat) \<and> (of_char c :: nat) \<le> 57)"

fun digits_rest :: "string \<Rightarrow> string" where
  "digits_rest [] = []"
| "digits_rest [c] = (if isdigit c then [] else [c])"
| "digits_rest (c # d # ds) =
     (if isdigit c then digits_rest (d # ds)
      else if c = CHR ''_'' \<and> isdigit d then digits_rest ds
      else c # d # ds)"

definition digitpart :: "string \<Rightarrow> string option" where
  "digitpart s = (case s of [] \<Rightarrow> None | c # cs \<Rightarrow> if isdigit c then Some (digits_rest cs) else None)"

definition strip :: "string \<Rightarrow> string" where
  "strip s = rev (dropWhile isspace (rev (dropWhile isspace s)))"

definition drop_sign :: "string \<Rightarrow> string" where
  "drop_sign s = (case s of [] \<Rightarrow> [] | c # cs \<Rightarrow> if c = CHR ''+'' \<or> c = CHR ''-'' then cs else s)"

definition int_text :: "string \<Rightarrow> exn + int" where
  "int_text s =
     (let t = strip s; body = drop_sign t
      in if digitpart body = Some []
         then Inr ((if take 1 t = ''-'' then - 1 else 1)
                    * foldl (\<lambda>a c. 10 * a + (int (of_char c) - 48)) 0 (filter isdigit body))
         else Inl (ValueError ''invalid literal for int() with base 10''))"

definition lower :: "string \<Rightarrow> string" where
  "lower s = map (\<lambda>c. if 65 \<le> (of_char c :: nat) \<and> (of_char c :: nat) \<le> 90
                      then char_of (of_char c + (32 :: nat)) else c) s"

definition exponent_ok :: "string \<Rightarrow> bool" where
  "exponent_ok s =
     (case s of
        [] \<Rightarrow> True
      | c # cs \<Rightarrow> (c = CHR ''e'' \<or> c = CHR ''E'') \<and> digitpart (drop_sign cs) = Some [])"

definition float_text :: "string \<Rightarrow> exn + unit" where
  "float_text s =
     (let body = drop_sign (strip s)
      in if lower body \<in> set [''inf'', ''infinity'', ''nan'']
            \<or> (case digitpart body of
                  Some r \<Rightarrow>
                    (case r of
                       [] \<Rightarrow> True
                     | c # cs \<Rightarrow>
                         if c = CHR ''.''
                         then (case digitpart cs of Some r' \<Rightarrow> exponent_ok r' | None \<Rightarrow> exponent_ok cs)
                         else exponent_ok r)
                | None \<Rightarrow>
                    (case body of
                       [] \<Rightarrow> False
                     | c # cs \<Rightarrow>
                         c = CHR ''.''
                         \<and> (case digitpart cs of Some r' \<Rightarrow> exponent_ok r' | None \<Rightarrow> False)))
         then Inr ()
         else Inl (ValueError ''could not convert string to float''))"

definition py_int :: "string option \<Rightarrow> exn + int" where
  "py_int x =
     (case x of
        None \<Rightarrow> Inl (TypeError ''int() argument must be a string or a real number, not NoneType'')
      | Some s \<Rightarrow> int_text s)"

definition py_float :: "string option \<Rightarrow> exn + unit" where
  "py_float x =
     (case x of
        None \<Rightarrow> Inl (TypeError ''float() argument must be a string or a real number, not NoneType'')
      | Some s \<Rightarrow> float_text s)"

subsection \<open>One pass of the construction loop\<close>

text \<open>
  The body of the loop of \<open>_create_column_definitions\<close> for one annotation, given what
  \<open>fields\<close> holds under the name: the column's resolved name and its \<open>ColumnSchema\<close>,
  or the exception.
\<close>

definition resolve ::
  "(pytype \<Rightarrow> 'd) \<Rightarrow> bool \<Rightarrow> string \<Rightarrow> 'd annotation \<Rightarrow> ('d, 'v) attr option
     \<Rightarrow> exn + (string \<times> ('d, 'v) ColumnSchema)" where
  "resolve w ao name annotation found =
     (let col_dtype = wrap w annotation;
          column = (case found of
                      Some v \<Rightarrow> v
                    | None \<Rightarrow> Definition (column_definition w False no_default_value_marker
                                             (Some (DT col_dtype)) None))
      in case column of
           Object ty \<Rightarrow>
             Inl (ValueError (''`'' @ name @ ''` should be a column definition, found '' @ ty))
         | Definition cd \<Rightarrow>
             (let dtype = (case cd_dtype cd of None \<Rightarrow> col_dtype | Some d \<Rightarrow> d)
              in if col_dtype \<noteq> dtype
                 then Inl (TypeError (''type annotation of column `'' @ name
                                        @ ''` does not match column definition''))
                 else
                   (let name' = (case cd_name cd of
                                   None \<Rightarrow> name
                                 | Some n \<Rightarrow> if n = [] then name else n)
                    in Inr (name',
                            \<lparr>cs_primary_key = cd_primary_key cd,
                             cs_default_value = cd_default_value cd,
                             cs_dtype = wrap w (DT dtype), cs_name = name',
                             cs_append_only = ao\<rparr>))))"

text \<open>
  A schema as \<open>SchemaMetaclass\<close> leaves it: the keys of its two dictionaries are
  distinct, and \<open>__columns__\<close> is what \<open>_create_column_definitions\<close> returned for them.
\<close>

definition built :: "(pytype \<Rightarrow> 'd) \<Rightarrow> ('d, 'v) Schema \<Rightarrow> bool" where
  "built w S =
     (distinct (map fst (annotations S)) \<and> distinct (map fst (namespace S))
      \<and> create_column_definitions w (annotations S) (namespace S) (append_only (properties S))
          = Inr (columns S))"

fun pairwise_disjoint :: "string list list \<Rightarrow> bool" where
  "pairwise_disjoint [] = True"
| "pairwise_disjoint (xs # xss) =
     ((\<forall>ys\<in>set xss. set xs \<inter> set ys = {}) \<and> pairwise_disjoint xss)"

subsection \<open>Collaborators and inputs of the examples\<close>

text \<open>
  Modelled from the spec: \<open>dt.wrap\<close> on the native types the source names (every other
  class is taken to the catch-all type here), and the covariance relation
  \<open>dt.dtype_issubclass\<close> as far as the spec's examples fix it: a type is below itself,
  below its \<open>Optional\<close> and below \<open>ANY\<close>.
\<close>

definition wrap_native :: "pytype \<Rightarrow> DType" where
  "wrap_native t =
     (case t of Py_int \<Rightarrow> INT_dt | Py_float \<Rightarrow> FLOAT | Py_str \<Rightarrow> STR_dt | Py_Any \<Rightarrow> ANY
      | Py_class n \<Rightarrow> ANY)"

definition dtype_issubclass :: "DType \<Rightarrow> DType \<Rightarrow> bool" where
  "dtype_issubclass l r = (l = r \<or> r = ANY \<or> r = Optional l)"

text \<open>The type hint of a data type, for the types of the examples.\<close>

fun typehint :: "DType \<Rightarrow> pytype" where
  "typehint INT_dt = Py_int"
| "typehint FLOAT = Py_float"
| "typehint STR_dt = Py_str"
| "typehint ANY = Py_Any"
| "typehint (Optional d) =
     Py_class (''typing.Optional['' @ (case typehint d of Py_class n \<Rightarrow> n | Py_int \<Rightarrow> ''int''
                 | Py_float \<Rightarrow> ''float'' | Py_str \<Rightarrow> ''str'' | Py_Any \<Rightarrow> ''typing.Any'') @ '']'')"
| "typehint d = Py_class ''object''"

text \<open>Python's \<open>repr\<close> of a text without quotes, backslashes or control characters.\<close>

definition repr_plain :: "string \<Rightarrow> string" where
  "repr_plain s = [CHR 0x27] @ s @ [CHR 0x27]"

text \<open>
  Python's hashes are stood in for by sums of code points; only that they are functions
  matters.
\<close>

definition example_hash :: "(DType, int) py_hash" where
  "example_hash =
     \<lparr>hash_str = (\<lambda>s. int (sum_list (map of_char s))),
      hash_tuple = (\<lambda>hs. sum_list hs + 1),
      hash_dtype = (\<lambda>d. Inr (int (size d))),
      hash_value = (\<lambda>v. Inr v),
      hash_undefined = 7\<rparr>"

text \<open>
  \<open>csv.reader\<close> on one line, with \<open>QUOTE_NONE\<close> and no escape character: the line
  without its line end, split at the delimiter; an empty line is the record \<open>[]\<close>.
\<close>

fun split_on :: "char \<Rightarrow> string \<Rightarrow> string list" where
  "split_on d [] = [[]]"
| "split_on d (c # cs) =
     (if c = d then [] # split_on d cs
      else (case split_on d cs of [] \<Rightarrow> [[c]] | x # xs \<Rightarrow> (c # x) # xs))"

definition csv_fields :: "char \<Rightarrow> string \<Rightarrow> string list" where
  "csv_fields d line =
     (let body = takeWhile (\<lambda>c. c \<noteq> CHR 0x0A \<and> c \<noteq> CHR 0x0D) line
      in if body = [] then [] else split_on d body)"

text \<open>
  A schema with plain columns: what \<open>schema_builder\<close> makes of
  \<open>column_definition(dtype=d)\<close> under each name.
\<close>

definition plain_definition :: "DType \<Rightarrow> (DType, int) ColumnDefinition" where
  "plain_definition d = column_definition wrap_native False no_default_value_marker (Some (DT d)) None"

definition plain_schema :: "string \<Rightarrow> (string \<times> DType) list \<Rightarrow> (DType, int) Schema" where
  "plain_schema n cols =
     \<lparr>schema_name = n,
      annotations = map (\<lambda>(k, d). (k, DT d)) cols,
      namespace = map (\<lambda>(k, d). (k, Definition (plain_definition d))) cols,
      properties = \<lparr>append_only = False\<rparr>,
      columns = map (\<lambda>(k, d). (k, \<lparr>cs_primary_key = False,
                                     cs_default_value = no_default_value_marker,
                                     cs_dtype = d, cs_name = k, cs_append_only = False\<rparr>)) cols\<rparr>"

text \<open>A column of floating-point storage with one missing value.\<close>

definition float_series_with_nan :: Series where
  "float_series_with_nan =
     \<lparr>cells = [\<lparr>is_tuple_or_list = False, isna = False, isnull = False, is_ndarray = False\<rparr>,
               \<lparr>is_tuple_or_list = False, isna = True, isnull = True, is_ndarray = False\<rparr>],
      is_integer_dtype = False, is_float_dtype = True, is_bool_dtype = False,
      is_string_dtype = False, is_datetime64_ns_dtype = False, tz_is_None = True,
      is_timedelta64_dtype = False, is_object_dtype = False\<rparr>"

text \<open>
  A schema with a primary-key column whose resolved name starts with two underscores:
  the attribute \<open>k\<close>, declared with \<open>column_definition(primary_key=True, name="__k")\<close>,
  and a plain column \<open>x\<close>.
\<close>

definition dunder_key_schema :: "(DType, int) Schema" where
  "dunder_key_schema =
     \<lparr>schema_name = ''Keyed'',
      annotations = [(''k'', DT INT_dt), (''x'', DT INT_dt)],
      namespace = [(''k'', Definition \<lparr>cd_primary_key = True,
                                        cd_default_value = no_default_value_marker,
                                        cd_dtype = Some INT_dt, cd_name = Some ''__k''\<rparr>),
                   (''x'', Definition (plain_definition INT_dt))],
      properties = \<lparr>append_only = False\<rparr>,
      columns = [(''__k'', \<lparr>cs_primary_key = True, cs_default_value = no_default_value_marker,
                            cs_dtype = INT_dt, cs_name = ''__k'', cs_append_only = False\<rparr>),
                 (''x'', \<lparr>cs_primary_key = False, cs_default_value = no_default_value_marker,
                          cs_dtype = INT_dt, cs_name = ''x'', cs_append_only = False\<rparr>)]\<rparr>"

text \<open>
  A schema declared as a class with the attribute \<open>a: int = column_definition(name="x")\<close>:
  the annotation is under \<open>a\<close>, the column under \<open>x\<close>.
\<close>

definition renamed_schema :: "(DType, int) Schema" where
  "renamed_schema =
     \<lparr>schema_name = ''Renamed'',
      annotations = [(''a'', Native Py_int)],
      namespace = [(''a'', Definition \<lparr>cd_primary_key = False,
                                        cd_default_value = no_default_value_marker,
                                        cd_dtype = None, cd_name = Some ''x''\<rparr>)],
      properties = \<lparr>append_only = False\<rparr>,
      columns = [(''x'', \<lparr>cs_primary_key = False, cs_default_value = no_default_value_marker,
                          cs_dtype = INT_dt, cs_name = ''x'', cs_append_only = False\<rparr>)]\<rparr>"

text \<open>
  An append-only schema, declared as \<open>class Log(pw.Schema, append_only=True)\<close> with the
  one attribute \<open>x: int\<close>.
\<close>

definition append_only_schema :: "(DType, int) Schema" where
  "append_only_schema =
     \<lparr>schema_name = ''Log'',
      annotations = [(''x'', Native Py_int)],
      namespace = [],
      properties = \<lparr>append_only = True\<rparr>,
      columns = [(''x'', \<lparr>cs_primary_key = False, cs_default_value = no_default_value_marker,
                          cs_dtype = INT_dt, cs_name = ''x'', cs_append_only = True\<rparr>)]\<rparr>"

section \<open>Properties\<close>

subsection \<open>Dictionary look-up\<close>

lemma getitem_Some: "map_of d k = Some v \<Longrightarrow> getitem d k = Inr v"
  by (simp add: getitem_def)

lemma getitem_None: "map_of d k = None \<Longrightarrow> getitem d k = Inl (KeyError k)"
  by (simp add: getitem_def)

lemma keys_dtypes: "map fst (dtypes S) = keys S"
  by (simp add: dtypes_def keys_def case_prod_unfold comp_def)

lemma keys_typehints: "map fst (typehints th S) = keys S"
  by (simp add: typehints_def dtypes_def keys_def case_prod_unfold comp_def)

subsection \<open>Method calls\<close>

lemma call_method_found: "map_of (namespace S) m = None \<Longrightarrow> call_method m S r = Inr r"
  by (simp add: call_method_def)

text \<open>
  The schemas of the examples below that hold a column under the name of a method are
  what \<open>schema_builder\<close> returns for plain definitions under these names.
\<close>

lemma shadowing_schemas_built:
  "schema_builder wrap_native repr_plain [(''keys'', plain_definition INT_dt)] (Some ''K'')
     \<lparr>append_only = False\<rparr> = Inr (plain_schema ''K'' [(''keys'', INT_dt)])"
  "schema_builder wrap_native repr_plain [(''_as_tuple'', plain_definition INT_dt)] (Some ''T'')
     \<lparr>append_only = False\<rparr> = Inr (plain_schema ''T'' [(''_as_tuple'', INT_dt)])"
  "schema_builder wrap_native repr_plain
     [(''_as_tuple'', plain_definition INT_dt), (''x'', plain_definition STR_dt)] (Some ''A'')
     \<lparr>append_only = False\<rparr>
   = Inr (plain_schema ''A'' [(''_as_tuple'', INT_dt), (''x'', STR_dt)])"
  "schema_builder wrap_native repr_plain
     [(''x'', plain_definition STR_dt), (''_as_tuple'', plain_definition INT_dt)] (Some ''B'')
     \<lparr>append_only = False\<rparr>
   = Inr (plain_schema ''B'' [(''x'', STR_dt), (''_as_tuple'', INT_dt)])"
  by code_simp+

subsection \<open>Sub-schema test\<close>

lemma is_subschema_loop_total:
  assumes "set ks \<subseteq> fst ` set ld" and "set ks \<subseteq> fst ` set rd"
  shows "is_subschema_loop sub ld rd ks =
           Inr (\<forall>k\<in>set ks. \<forall>l r. map_of ld k = Some l \<longrightarrow> map_of rd k = Some r \<longrightarrow> sub l r)"
  using assms
proof (induction ks)
  case Nil
  then show ?case by simp
next
  case (Cons k ks)
  from Cons.prems obtain l r where l: "map_of ld k = Some l" and r: "map_of rd k = Some r"
    by (metis insert_subset list.simps(15) map_of_eq_None_iff not_Some_eq)
  with Cons show ?case
    by (auto simp: getitem_Some)
qed

text \<open>
  For two schemas whose class dictionaries hold nothing under the name \<open>keys\<close>,
  \<open>is_subschema\<close> never raises, and it returns true exactly when the two schemas have
  the same set of column names and, under every name, the data type of the left schema
  is a subclass of the data type of the right one. The subclass test is the
  collaborator's, a parameter here.
\<close>

theorem is_subschema_iff:
  assumes "map_of (namespace A) ''keys'' = None" and "map_of (namespace B) ''keys'' = None"
  shows "is_subschema sub A B =
     Inr (set (keys A) = set (keys B)
          \<and> (\<forall>k\<in>set (keys A). \<forall>l r. map_of (dtypes A) k = Some l \<longrightarrow> map_of (dtypes B) k = Some r
                 \<longrightarrow> sub l r))"
proof (cases "set (keys A) = set (keys B)")
  case False
  then show ?thesis
    by (simp add: is_subschema_def call_method_found [OF assms(1)] call_method_found [OF assms(2)])
next
  case True
  have a: "set (keys A) \<subseteq> fst ` set (dtypes A)"
    using keys_dtypes [of A] by (metis set_map subset_refl)
  have b: "set (keys A) \<subseteq> fst ` set (dtypes B)"
    using keys_dtypes [of B] True by (metis set_map subset_refl)
  show ?thesis
    using True is_subschema_loop_total [OF a b, of sub]
    by (simp add: is_subschema_def call_method_found [OF assms(1)] call_method_found [OF assms(2)])
qed

text \<open>The three examples of the specification.\<close>

lemma is_subschema_examples:
  "is_subschema dtype_issubclass (plain_schema ''A'' [(''x'', INT_dt)])
       (plain_schema ''B'' [(''x'', Optional INT_dt)]) = Inr True"
  "is_subschema dtype_issubclass (plain_schema ''A'' [(''x'', Optional INT_dt)])
       (plain_schema ''B'' [(''x'', INT_dt)]) = Inr False"
  "is_subschema dtype_issubclass (plain_schema ''A'' [(''x'', INT_dt)])
       (plain_schema ''B'' [(''x'', INT_dt), (''y'', STR_dt)]) = Inr False"
  by code_simp+

text \<open>
  C3: the schema with the one column \<open>keys: int\<close>, made by \<open>schema_builder\<close>, compared
  with itself. The column names are the same and \<open>int\<close> is a subclass of \<open>int\<close>, but
  \<open>left.keys()\<close> finds the column definition that the class dictionary holds under
  \<open>keys\<close> and raises \<open>TypeError\<close>.
\<close>

theorem is_subschema_shadowed_keys:
  "is_subschema dtype_issubclass (plain_schema ''K'' [(''keys'', INT_dt)])
     (plain_schema ''K'' [(''keys'', INT_dt)])
   = Inl (TypeError (CHR 0x27 # ''ColumnDefinition'' @ CHR 0x27 # '' object is not callable''))"
  by code_simp

subsection \<open>Equality and hashing\<close>

text \<open>
  For two schemas whose class dictionaries hold nothing under the name \<open>_as_tuple\<close>:
  they are equal exactly when their properties are equal and their ordered lists of
  (name, \<open>ColumnSchema\<close>) pairs are equal, and equal schemas have the same hash (the
  same number, or the same exception). The name of a schema and its class dictionary
  take no part in either.
\<close>

theorem schema_eq_iff_and_hash:
  assumes "map_of (namespace A) ''_as_tuple'' = None"
    and "map_of (namespace B) ''_as_tuple'' = None"
  shows "schema_eq A B = Inr (properties A = properties B \<and> columns A = columns B)
         \<and> (schema_eq A B = Inr True \<longrightarrow> schema_hash H A = schema_hash H B)"
  by (simp add: schema_eq_def as_tuple_def schema_hash_def
        call_method_found [OF assms(1)] call_method_found [OF assms(2)])

text \<open>Two schemas that differ in their name only are equal and hash alike.\<close>

lemma schema_eq_examples:
  "plain_schema ''A'' [(''x'', INT_dt), (''y'', STR_dt)]
     \<noteq> plain_schema ''B'' [(''x'', INT_dt), (''y'', STR_dt)]"
  "schema_eq (plain_schema ''A'' [(''x'', INT_dt), (''y'', STR_dt)])
        (plain_schema ''B'' [(''x'', INT_dt), (''y'', STR_dt)]) = Inr True"
  "schema_hash example_hash (plain_schema ''A'' [(''x'', INT_dt), (''y'', STR_dt)])
       = schema_hash example_hash (plain_schema ''B'' [(''x'', INT_dt), (''y'', STR_dt)])"
  by code_simp+

text \<open>
  C4: the schema with the one column \<open>_as_tuple: int\<close>, made by \<open>schema_builder\<close>. It
  has the same properties and the same columns as itself, but \<open>==\<close> and \<open>hash\<close> call
  \<open>self._as_tuple()\<close>, which finds the column definition that the class dictionary
  holds under \<open>_as_tuple\<close>, and raise \<open>TypeError\<close>.
\<close>

theorem schema_eq_shadowed_as_tuple:
  "schema_eq (plain_schema ''T'' [(''_as_tuple'', INT_dt)])
     (plain_schema ''T'' [(''_as_tuple'', INT_dt)])
   = Inl (TypeError (CHR 0x27 # ''ColumnDefinition'' @ CHR 0x27 # '' object is not callable''))
   \<and> schema_hash example_hash (plain_schema ''T'' [(''_as_tuple'', INT_dt)])
   = Inl (TypeError (CHR 0x27 # ''ColumnDefinition'' @ CHR 0x27 # '' object is not callable''))"
  by code_simp

text \<open>
  For two schemas whose class dictionaries hold nothing under the name \<open>_as_tuple\<close>,
  equality is sensitive to the order of the columns: with equal properties and the same
  set of (name, \<open>ColumnSchema\<close>) pairs, listed in different orders, \<open>==\<close> returns false.
\<close>

theorem schema_eq_order_sensitive:
  assumes "map_of (namespace A) ''_as_tuple'' = None"
    and "map_of (namespace B) ''_as_tuple'' = None"
    and "properties A = properties B" and "set (columns A) = set (columns B)"
    and "columns A \<noteq> columns B"
  shows "schema_eq A B = Inr False"
  using assms(3-5)
  by (simp add: schema_eq_def as_tuple_def
        call_method_found [OF assms(1)] call_method_found [OF assms(2)])

lemma schema_eq_order_example:
  "schema_eq (plain_schema ''S'' [(''x'', INT_dt), (''y'', STR_dt)])
     (plain_schema ''S'' [(''y'', STR_dt), (''x'', INT_dt)]) = Inr False"
  by code_simp

text \<open>
  C9: two schemas made by \<open>schema_builder\<close> with the columns \<open>_as_tuple: int\<close> and
  \<open>x: str\<close>, in the two orders. They have equal properties and the same columns in
  different orders, but \<open>==\<close> does not return false: \<open>self._as_tuple()\<close> finds the
  column definition that the class dictionary holds under \<open>_as_tuple\<close> and raises
  \<open>TypeError\<close>.
\<close>

theorem schema_eq_order_shadowed:
  "properties (plain_schema ''A'' [(''_as_tuple'', INT_dt), (''x'', STR_dt)])
     = properties (plain_schema ''B'' [(''x'', STR_dt), (''_as_tuple'', INT_dt)])
   \<and> set (columns (plain_schema ''A'' [(''_as_tuple'', INT_dt), (''x'', STR_dt)]))
     = set (columns (plain_schema ''B'' [(''x'', STR_dt), (''_as_tuple'', INT_dt)]))
   \<and> columns (plain_schema ''A'' [(''_as_tuple'', INT_dt), (''x'', STR_dt)])
     \<noteq> columns (plain_schema ''B'' [(''x'', STR_dt), (''_as_tuple'', INT_dt)])
   \<and> schema_eq (plain_schema ''A'' [(''_as_tuple'', INT_dt), (''x'', STR_dt)])
        (plain_schema ''B'' [(''x'', STR_dt), (''_as_tuple'', INT_dt)])
     = Inl (TypeError (CHR 0x27 # ''ColumnDefinition'' @ CHR 0x27 # '' object is not callable''))"
proof -
  let ?A = "plain_schema ''A'' [(''_as_tuple'', INT_dt), (''x'', STR_dt)]"
  let ?B = "plain_schema ''B'' [(''x'', STR_dt), (''_as_tuple'', INT_dt)]"
  have p: "properties ?A = properties ?B" by (simp add: plain_schema_def)
  have s: "set (columns ?A) = set (columns ?B)" by (auto simp: plain_schema_def)
  have n: "columns ?A \<noteq> columns ?B" by (simp add: plain_schema_def)
  have e: "schema_eq ?A ?B
             = Inl (TypeError (CHR 0x27 # ''ColumnDefinition'' @ CHR 0x27 # '' object is not callable''))"
    by code_simp
  from p s n e show ?thesis by blast
qed

subsection \<open>Type of a CSV column\<close>

lemma all_parsable_value_errors:
  assumes "\<forall>s\<in>set entries. \<forall>e. f s = Inl e \<longrightarrow> (\<exists>m. e = ValueError m)"
  shows "all_parsable f entries = Inr (\<forall>s\<in>set entries. \<exists>v. f s = Inr v)"
  using assms
proof (induction entries)
  case Nil
  then show ?case by simp
next
  case (Cons s entries)
  show ?case
  proof (cases "f s")
    case (Inl e)
    with Cons.prems obtain m where "e = ValueError m" by auto
    with Inl show ?thesis by (simp add: is_parsable_to_def)
  next
    case (Inr v)
    with Cons show ?thesis by (simp add: is_parsable_to_def)
  qed
qed

text \<open>
  C7: on sampled values for which \<open>int\<close> and \<open>float\<close> raise nothing but \<open>ValueError\<close>
  (as they do on text), \<open>choose_type\<close> returns \<open>Any\<close> for no values at all, else \<open>int\<close>
  if every value parses as an integer, else \<open>float\<close> if every value parses as a
  floating-point number, else \<open>str\<close>.
\<close>

theorem choose_type_precedence:
  assumes "\<forall>s\<in>set entries. (\<forall>e. int_fun s = Inl e \<longrightarrow> (\<exists>m. e = ValueError m))
                             \<and> (\<forall>e. float_fun s = Inl e \<longrightarrow> (\<exists>m. e = ValueError m))"
  shows "choose_type int_fun float_fun entries =
           Inr (if entries = [] then Py_Any
                else if \<forall>s\<in>set entries. \<exists>v. int_fun s = Inr v then Py_int
                else if \<forall>s\<in>set entries. \<exists>v. float_fun s = Inr v then Py_float
                else Py_str)"
proof -
  have i: "all_parsable int_fun entries = Inr (\<forall>s\<in>set entries. \<exists>v. int_fun s = Inr v)"
    using assms by (intro all_parsable_value_errors) blast
  have f: "all_parsable float_fun entries = Inr (\<forall>s\<in>set entries. \<exists>v. float_fun s = Inr v)"
    using assms by (intro all_parsable_value_errors) blast
  show ?thesis
  proof (cases "entries = []")
    case True
    then show ?thesis by (simp add: choose_type_def)
  next
    case False
    then show ?thesis
      unfolding choose_type_def i f by (simp del: ball_simps bex_simps)
  qed
qed

lemma int_text_examples:
  "int_text ''1'' = Inr 1" "int_text ''2'' = Inr 2"
  "int_text ''1.5'' = Inl (ValueError ''invalid literal for int() with base 10'')"
  "int_text ''foo'' = Inl (ValueError ''invalid literal for int() with base 10'')"
  "int_text ''bar'' = Inl (ValueError ''invalid literal for int() with base 10'')"
  by (simp_all add: int_text_def strip_def drop_sign_def digitpart_def isdigit_def isspace_def)

lemma float_text_examples:
  "float_text ''1'' = Inr ()" "float_text ''2'' = Inr ()" "float_text ''1.5'' = Inr ()"
  "float_text ''foo'' = Inl (ValueError ''could not convert string to float'')"
  "float_text ''bar'' = Inl (ValueError ''could not convert string to float'')"
  by (simp_all add: float_text_def strip_def drop_sign_def digitpart_def isdigit_def isspace_def
        lower_def exponent_ok_def)

text \<open>The columns of the specification's examples, and a column without values.\<close>

theorem choose_type_precedence_witness:
  "choose_type py_int py_float [Some ''1'', Some ''2''] = Inr Py_int
   \<and> choose_type py_int py_float [Some ''1.5'', Some ''2''] = Inr Py_float
   \<and> choose_type py_int py_float [Some ''foo'', Some ''bar''] = Inr Py_str
   \<and> choose_type py_int py_float ([] :: string option list) = Inr Py_Any"
  using choose_type_precedence [of "[Some ''1'', Some ''2'']" py_int py_float]
    choose_type_precedence [of "[Some ''1.5'', Some ''2'']" py_int py_float]
    choose_type_precedence [of "[Some ''foo'', Some ''bar'']" py_int py_float]
    choose_type_precedence [of "[] :: string option list" py_int py_float]
  by (simp add: py_int_def py_float_def int_text_examples float_text_examples)

subsection \<open>Type of a pandas column\<close>

text \<open>
  C8: for a column with at least one missing value that is not all sequences, not all
  missing and not all arrays, \<open>_type_converter\<close> returns \<open>Optional\<close> of the type that
  the chain on the storage type produced.
\<close>

theorem type_converter_optional:
  assumes "\<exists>x\<in>set (cells series). isna x \<or> isnull x"
    and "\<not> list_all is_tuple_or_list (cells series)"
    and "\<not> list_all (\<lambda>x. isna x \<or> isnull x) (cells series)"
    and "\<not> list_all is_ndarray (cells series)"
  shows "type_converter series = Optional (ret_type series)"
  using assms by (auto simp: type_converter_def list_ex_iff)

theorem type_converter_optional_witness:
  "(\<exists>x\<in>set (cells float_series_with_nan). isna x \<or> isnull x)
   \<and> \<not> list_all is_tuple_or_list (cells float_series_with_nan)
   \<and> \<not> list_all (\<lambda>x. isna x \<or> isnull x) (cells float_series_with_nan)
   \<and> \<not> list_all is_ndarray (cells float_series_with_nan)
   \<and> type_converter float_series_with_nan = Optional FLOAT"
proof -
  have a: "\<exists>x\<in>set (cells float_series_with_nan). isna x \<or> isnull x"
    by (simp add: float_series_with_nan_def)
  have b: "\<not> list_all is_tuple_or_list (cells float_series_with_nan)"
    by (simp add: float_series_with_nan_def)
  have c: "\<not> list_all (\<lambda>x. isna x \<or> isnull x) (cells float_series_with_nan)"
    by (simp add: float_series_with_nan_def)
  have d: "\<not> list_all is_ndarray (cells float_series_with_nan)"
    by (simp add: float_series_with_nan_def)
  have r: "ret_type float_series_with_nan = FLOAT"
    by (simp add: ret_type_def float_series_with_nan_def)
  from type_converter_optional [OF a b c d] a b c d r show ?thesis by simp
qed


subsection \<open>Construction\<close>

lemma collect_Inr_iff: "collect xs = Inr vs \<longleftrightarrow> xs = map Inr vs"
proof (induction xs arbitrary: vs)
  case Nil
  then show ?case by auto
next
  case (Cons x xs)
  show ?case
  proof (cases x)
    case (Inl e)
    then show ?thesis by auto
  next
    case (Inr v)
    show ?thesis
    proof (cases "collect xs")
      case (Inl e)
      have "xs \<noteq> map Inr ws" for ws
        using Cons.IH [of ws] Inl by simp
      then show ?thesis using Inl Inr by (cases vs) auto
    next
      case r: (Inr ws)
      with Cons.IH [of ws] have "xs = map Inr ws" by simp
      with r Inr show ?thesis by (cases vs) (auto simp: inj_map_eq_map [OF inj_Inr])
    qed
  qed
qed

lemma collect_all_Inr:
  assumes "\<forall>x\<in>set xs. \<exists>v. x = Inr v"
  shows "\<exists>vs. collect xs = Inr vs"
  using assms
proof (induction xs)
  case Nil
  then show ?case by simp
next
  case (Cons x xs)
  then obtain v vs where "x = Inr v" "collect xs = Inr vs" by auto
  then show ?case by simp
qed

lemma create_loop_Cons:
  "create_loop w ao ((name, a) # rest) flds cols =
     (case resolve w ao name a (map_of flds name) of
        Inl e \<Rightarrow> Inl e
      | Inr (n, c) \<Rightarrow> create_loop w ao rest (AList.delete name flds) (AList.update n c cols))"
  by (simp add: resolve_def Let_def split: attr.splits option.splits)

lemma delete_filter: "AList.delete k xs = filter (\<lambda>(k', v). k' \<noteq> k) xs"
  by (induction xs) (auto simp: AList.delete_eq)

text \<open>
  With distinct annotation names, the look-ups of the loop are look-ups in the fields it
  started with: the loop is one pass of \<open>resolve\<close> for each annotation, the fields left
  over are the ones without annotation, and the columns are entered in order.
\<close>

lemma create_loop_collect:
  assumes "distinct (map fst annots)"
  shows "create_loop w ao annots flds cols =
           (case collect (map (\<lambda>(n, a). resolve w ao n a (map_of flds n)) annots) of
              Inl e \<Rightarrow> Inl e
            | Inr rs \<Rightarrow> Inr (filter (\<lambda>(k, v). k \<notin> set (map fst annots)) flds,
                              fold (\<lambda>(n, c). AList.update n c) rs cols))"
  using assms
proof (induction annots arbitrary: flds cols)
  case Nil
  then show ?case by simp
next
  case (Cons p annots)
  obtain name a where p: "p = (name, a)" by (cases p)
  from Cons.prems have d: "distinct (map fst annots)" and nin: "name \<notin> fst ` set annots"
    by (auto simp: p)
  have same: "map (\<lambda>(n, a). resolve w ao n a (map_of (AList.delete name flds) n)) annots
                = map (\<lambda>(n, a). resolve w ao n a (map_of flds n)) annots"
    using nin by (intro map_cong refl) (force simp: AList.delete_conv')
  have flt: "filter (\<lambda>(k, v). k \<notin> fst ` set annots) (AList.delete name flds)
               = filter (\<lambda>(k, v). k \<noteq> name \<and> k \<notin> fst ` set annots) flds"
    by (simp add: delete_filter case_prod_unfold conj_commute)
  show ?case
    unfolding p create_loop_Cons
    by (simp add: Cons.IH [OF d] same flt split: sum.splits prod.splits)
qed

text \<open>
  C6, as the code has it: when every annotated field passes the loop (none is a
  non-definition, none has a data type that differs from its annotation) and at least
  one field has no annotation, \<open>_create_column_definitions\<close> raises the \<open>ValueError\<close>
  whose message lists all fields without annotation, in the order of the class
  dictionary. The annotations are a dictionary, so their names are distinct.
\<close>

theorem missing_annotation_error:
  assumes "distinct (map fst annots)"
    and "\<forall>(n, a)\<in>set annots. \<exists>r. resolve w ao n a (map_of (cls_fields ns) n) = Inr r"
    and "filter (\<lambda>(k, v). k \<notin> set (map fst annots)) (cls_fields ns) \<noteq> []"
  shows "create_column_definitions w annots ns ao =
           Inl (ValueError (''definitions of columns ''
                  @ join '', '' (map fst (filter (\<lambda>(k, v). k \<notin> set (map fst annots))
                                                 (cls_fields ns)))
                  @ '' lack type annotation''))"
proof -
  have "\<forall>x\<in>set (map (\<lambda>(n, a). resolve w ao n a (map_of (cls_fields ns) n)) annots). \<exists>v. x = Inr v"
    using assms(2) by auto
  from collect_all_Inr [OF this] obtain rs where
    "collect (map (\<lambda>(n, a). resolve w ao n a (map_of (cls_fields ns) n)) annots) = Inr rs" ..
  then show ?thesis
    using assms(3) by (simp add: create_column_definitions_def create_loop_collect [OF assms(1)])
qed

text \<open>Two fields without annotation, one of them not even a column definition: both are listed.\<close>

theorem missing_annotation_error_witness:
  "create_column_definitions wrap_native [(''x'', Native Py_int)]
     [(''x'', Definition (plain_definition INT_dt)), (''y'', Definition (plain_definition STR_dt)),
      (''z'', Object ''<class 'int'>'')] False
   = Inl (ValueError ''definitions of columns y, z lack type annotation'')"
proof -
  let ?A = "[(''x'', Native Py_int)] :: (string \<times> DType annotation) list"
  let ?NS = "[(''x'', Definition (plain_definition INT_dt)),
              (''y'', Definition (plain_definition STR_dt)), (''z'', Object ''<class 'int'>'')]"
  have f: "cls_fields ?NS = ?NS"
    by code_simp
  have d: "distinct (map fst ?A)"
    by simp
  have r: "\<forall>(n, a)\<in>set ?A. \<exists>r. resolve wrap_native False n a (map_of (cls_fields ?NS) n) = Inr r"
    unfolding f
    by (simp add: resolve_def plain_definition_def column_definition_def wrap_native_def Let_def)
  have u: "filter (\<lambda>(k, v). k \<notin> set (map fst ?A)) (cls_fields ?NS) \<noteq> []"
    unfolding f by simp
  have j: "''definitions of columns ''
             @ join '', '' (map fst (filter (\<lambda>(k, v). k \<notin> set (map fst ?A)) (cls_fields ?NS)))
             @ '' lack type annotation''
           = ''definitions of columns y, z lack type annotation''"
    unfolding f by simp
  from missing_annotation_error [OF d r u] show ?thesis
    unfolding j .
qed

text \<open>
  C6 as stated fails: the field \<open>y\<close> has no annotation, but the loop raises on the
  annotated field \<open>x\<close>, which is no column definition, before the fields without
  annotation are looked at.
\<close>

theorem missing_annotation_preempted:
  "create_column_definitions wrap_native [(''x'', Native Py_int)]
     [(''x'', Object ''<class 'int'>''), (''y'', Definition (plain_definition STR_dt))] False
   = Inl (ValueError ''`x` should be a column definition, found <class 'int'>'')"
  by code_simp

subsection \<open>Compatibility assertion\<close>

text \<open>
  When the column names of \<open>self\<close> are a proper subset of those of \<open>other\<close> (and no
  column is in the way of the method \<open>typehints\<close>), the first check raises and lists the
  missing names.
\<close>

lemma assert_equal_to_missing:
  assumes "set (keys self) \<subset> set (keys other)"
    and "map_of (namespace self) ''typehints'' = None"
    and "map_of (namespace other) ''typehints'' = None"
  shows "assert_equal_to th self other allow_superset ignore_primary_keys =
           Inl (AssertionError (MissingColumns (set (keys other) - set (keys self))))"
proof -
  have s: "set (map fst (typehints th self)) = set (keys self)"
    and t: "set (map fst (typehints th other)) = set (keys other)"
    by (simp_all only: keys_typehints)
  have c: "call_method ''typehints'' self (typehints th self) = Inr (typehints th self)"
    and d: "call_method ''typehints'' other (typehints th other) = Inr (typehints th other)"
    using assms(2,3) by (simp_all add: call_method_def)
  show ?thesis
    unfolding assert_equal_to_def c d sum.case s t using assms(1) by (simp only: if_True)
qed

text \<open>The two schemas of the next theorem are what \<open>schema_builder\<close> returns.\<close>

lemma plain_schema_built_examples:
  "schema_builder wrap_native repr_plain
     [(''x'', plain_definition INT_dt), (''z'', plain_definition INT_dt)] (Some ''Self'')
     \<lparr>append_only = False\<rparr> = Inr (plain_schema ''Self'' [(''x'', INT_dt), (''z'', INT_dt)])"
  "schema_builder wrap_native repr_plain
     [(''x'', plain_definition INT_dt), (''y'', plain_definition INT_dt)] (Some ''Other'')
     \<lparr>append_only = False\<rparr> = Inr (plain_schema ''Other'' [(''x'', INT_dt), (''y'', INT_dt)])"
  by code_simp+

text \<open>
  C1: \<open>self\<close> has the columns \<open>x\<close> and \<open>z\<close>, \<open>other\<close> has \<open>x\<close> and \<open>y\<close>. The column \<open>y\<close>
  of \<open>other\<close> is absent from \<open>self\<close>, but the names of \<open>self\<close> are no proper subset of
  those of \<open>other\<close>, so the first check is passed over and the loop over the columns of
  \<open>other\<close> reads \<open>self_dict['y']\<close>: a \<open>KeyError\<close>, not the error that lists the
  missing columns.
\<close>

theorem assert_equal_to_incomparable:
  "assert_equal_to typehint (plain_schema ''Self'' [(''x'', INT_dt), (''z'', INT_dt)])
     (plain_schema ''Other'' [(''x'', INT_dt), (''y'', INT_dt)]) False True
   = Inl (KeyError ''y'')"
  by code_simp


subsection \<open>\<open>update_types\<close>\<close>

text \<open>The schema \<open>dunder_key_schema\<close> is what \<open>schema_builder\<close> returns for its two definitions.\<close>

lemma dunder_key_schema_built:
  "schema_builder wrap_native repr_plain
     [(''k'', column_definition wrap_native True no_default_value_marker (Some (Native Py_int))
                (Some ''__k'')),
      (''x'', column_definition wrap_native False no_default_value_marker (Some (Native Py_int))
                None)]
     (Some ''Keyed'') \<lparr>append_only = False\<rparr> = Inr dunder_key_schema"
  by code_simp

text \<open>
  C5: \<open>update_types(x=float)\<close> on \<open>dunder_key_schema\<close>. The data type of \<open>x\<close> is
  replaced, but the column \<open>__k\<close> comes back without its primary-key flag:
  \<open>update_types\<close> hands the definitions to \<open>schema_builder\<close> under their column names,
  and \<open>_cls_fields\<close> drops the class attribute \<open>__k\<close>, so that
  \<open>_create_column_definitions\<close> makes a default definition for the annotation \<open>__k\<close>.
\<close>

theorem update_types_drops_primary_key:
  "update_types wrap_native repr_plain dunder_key_schema [(''x'', Native Py_float)] =
     Inr \<lparr>schema_name = ''custom_schema(['__k', 'x'])'',
          annotations = [(''__k'', DT INT_dt), (''x'', DT FLOAT)],
          namespace = [(''__k'', Definition \<lparr>cd_primary_key = True,
                                              cd_default_value = no_default_value_marker,
                                              cd_dtype = Some INT_dt, cd_name = Some ''__k''\<rparr>),
                       (''x'', Definition \<lparr>cd_primary_key = False,
                                            cd_default_value = no_default_value_marker,
                                            cd_dtype = Some FLOAT, cd_name = Some ''x''\<rparr>)],
          properties = \<lparr>append_only = False\<rparr>,
          columns = [(''__k'', \<lparr>cs_primary_key = False,
                                cs_default_value = no_default_value_marker,
                                cs_dtype = INT_dt, cs_name = ''__k'', cs_append_only = False\<rparr>),
                     (''x'', \<lparr>cs_primary_key = False,
                              cs_default_value = no_default_value_marker,
                              cs_dtype = FLOAT, cs_name = ''x'', cs_append_only = False\<rparr>)]\<rparr>"
  by code_simp

subsection \<open>Blank lines in a CSV file\<close>

text \<open>
  The generator yields the lines before the first blank line that are no comments, and
  raises \<open>IndexError\<close> when it comes to a blank line.
\<close>

lemma remove_comments_events:
  "remove_comments_from_file f cc =
     map Inr (lines_before_blank cc f)
       @ (if \<exists>line\<in>set f. lstrip line = [] then [Inl IndexError] else [])"
proof (induction f)
  case Nil
  then show ?case by (simp add: lines_before_blank_def)
next
  case (Cons line f)
  show ?case
  proof (cases "lstrip line")
    case Nil
    then show ?thesis by (simp add: lines_before_blank_def)
  next
    case c: (Cons c cs)
    show ?thesis
    proof (cases "Some [c] = cc")
      case True
      with c Cons.IH show ?thesis
        by (simp add: lines_before_blank_def is_comment_def)
    next
      case False
      with c Cons.IH show ?thesis
        by (simp add: lines_before_blank_def is_comment_def)
    qed
  qed
qed

lemma dict_rows_raise:
  "dict_rows parse_line fieldnames None (map Inr ys @ [Inl e]) = Inl e"
  by (induction ys) (simp_all add: Let_def)

lemma dict_rows_raise_capped:
  assumes "length (filter (\<lambda>line. parse_line line \<noteq> []) ys) < n"
  shows "dict_rows parse_line fieldnames (Some n) (map Inr ys @ [Inl e]) = Inl e"
  using assms
proof (induction ys arbitrary: n)
  case Nil
  then show ?case by simp
next
  case (Cons y ys)
  show ?case
  proof (cases "parse_line y = []")
    case True
    with Cons show ?thesis by (simp add: Let_def)
  next
    case False
    with Cons.prems have "length (filter (\<lambda>line. parse_line line \<noteq> []) ys) < n - 1" and "n \<noteq> 0"
      by auto
    with Cons.IH [of "n - 1"] False show ?thesis by (simp add: Let_def)
  qed
qed

lemma dict_rows_stops:
  assumes "n \<le> length (filter (\<lambda>line. parse_line line \<noteq> []) ys)"
  shows "dict_rows parse_line fieldnames (Some n) (map Inr ys @ rest)
           = dict_rows parse_line fieldnames (Some n) (map Inr ys)"
  using assms
proof (induction ys arbitrary: n)
  case Nil
  then show ?case by (cases rest) simp_all
next
  case (Cons y ys)
  show ?case
  proof (cases "parse_line y = []")
    case True
    with Cons show ?thesis by (simp add: Let_def)
  next
    case False
    with Cons.prems have "n - 1 \<le> length (filter (\<lambda>line. parse_line line \<noteq> []) ys)"
      by auto
    with Cons.IH [of "n - 1"] False show ?thesis by (simp add: Let_def)
  qed
qed

text \<open>
  C10, as the code has it: when the file has a line that is empty or white space only
  and the reader does not stop before the first such line (it never does when
  \<open>num_parsed_rows\<close> is \<open>None\<close>; with a cap it does when the header and as many rows as
  the cap asks for come before that line), \<open>schema_from_csv\<close> raises \<open>IndexError\<close>,
  whatever the comment character is, also when there is none.
\<close>

theorem schema_from_csv_blank_line:
  assumes "\<exists>line\<in>set f. lstrip line = []"
    and "\<not> stops_before_blank parse_line comment_character num_parsed_rows f"
  shows "schema_from_csv w repr parse_line int_fun float_fun f name props comment_character
           num_parsed_rows = Inl IndexError"
proof -
  have ev: "remove_comments_from_file f comment_character
              = map Inr (lines_before_blank comment_character f) @ [Inl IndexError]"
    using assms(1) by (simp add: remove_comments_events)
  show ?thesis
  proof (cases "lines_before_blank comment_character f")
    case Nil
    with ev show ?thesis by (simp add: schema_from_csv_def)
  next
    case (Cons header rows)
    show ?thesis
    proof (cases num_parsed_rows)
      case None
      with ev Cons show ?thesis
        by (simp add: schema_from_csv_def dict_rows_raise Let_def)
    next
      case (Some n)
      with assms(2) Cons have "length (filter (\<lambda>line. parse_line line \<noteq> []) rows) < n"
        by (simp add: stops_before_blank_def)
      from dict_rows_raise_capped [OF this] ev Cons Some show ?thesis
        by (simp add: schema_from_csv_def Let_def)
    qed
  qed
qed

text \<open>
  The file with the lines \<open>a\<close>, \<open>1\<close> and an empty line: read with no cap, and read with
  a cap of two rows, of which only one comes before the empty line.
\<close>

theorem schema_from_csv_blank_line_witness:
  "(\<exists>line\<in>set [''a\<newline>'', ''1\<newline>'', ''\<newline>'']. lstrip line = [])
   \<and> \<not> stops_before_blank (csv_fields CHR '','') None None [''a\<newline>'', ''1\<newline>'', ''\<newline>'']
   \<and> (schema_from_csv wrap_native repr_plain (csv_fields CHR '','') py_int py_float
        [''a\<newline>'', ''1\<newline>'', ''\<newline>''] (Some ''S'') \<lparr>append_only = False\<rparr> None None
          :: exn + (DType, int) Schema)
       = Inl IndexError
   \<and> \<not> stops_before_blank (csv_fields CHR '','') None (Some 2) [''a\<newline>'', ''1\<newline>'', ''\<newline>'']
   \<and> (schema_from_csv wrap_native repr_plain (csv_fields CHR '','') py_int py_float
        [''a\<newline>'', ''1\<newline>'', ''\<newline>''] (Some ''S'') \<lparr>append_only = False\<rparr> None (Some 2)
          :: exn + (DType, int) Schema)
       = Inl IndexError"
proof -
  let ?f = "[''a\<newline>'', ''1\<newline>'', ''\<newline>'']"
  have b: "\<exists>line\<in>set ?f. lstrip line = []"
    by (simp add: lstrip_def isspace_def)
  have n: "\<not> stops_before_blank (csv_fields CHR '','') None None ?f"
    by code_simp
  have c: "\<not> stops_before_blank (csv_fields CHR '','') None (Some 2) ?f"
    by code_simp
  from schema_from_csv_blank_line [OF b n] schema_from_csv_blank_line [OF b c] b n c
  show ?thesis by blast
qed

text \<open>
  When the reader stops before the first blank line, that line and the lines after it
  are never looked at: the result is the result for the lines before it.
\<close>

lemma schema_from_csv_stops_before_blank:
  assumes "stops_before_blank parse_line comment_character num_parsed_rows f"
  shows "schema_from_csv w repr parse_line int_fun float_fun f name props comment_character
           num_parsed_rows
         = schema_from_csv w repr parse_line int_fun float_fun
             (takeWhile (\<lambda>line. lstrip line \<noteq> []) f) name props comment_character
             num_parsed_rows"
proof -
  let ?g = "takeWhile (\<lambda>line. lstrip line \<noteq> []) f"
  from assms obtain header rows n where
    l: "lines_before_blank comment_character f = header # rows"
    and c: "num_parsed_rows = Some n"
    and n: "n \<le> length (filter (\<lambda>line. parse_line line \<noteq> []) rows)"
    by (auto simp: stops_before_blank_def split: list.splits option.splits)
  have "\<not> (\<exists>line\<in>set ?g. lstrip line = [])"
    by (auto dest: set_takeWhileD)
  moreover have "lines_before_blank comment_character ?g = lines_before_blank comment_character f"
    by (simp add: lines_before_blank_def)
  ultimately have g: "remove_comments_from_file ?g comment_character = map Inr (header # rows)"
    by (simp add: remove_comments_events l)
  have f: "remove_comments_from_file f comment_character
             = Inr header # (map Inr rows
                 @ (if \<exists>line\<in>set f. lstrip line = [] then [Inl IndexError] else []))"
    by (simp add: remove_comments_events l)
  show ?thesis
    unfolding schema_from_csv_def f g c
    by (simp add: dict_rows_stops [OF n] Let_def)
qed

text \<open>The first example of the specification: header \<open>a,b\<close>, rows \<open>1,foo\<close> and \<open>2,bar\<close>.\<close>

lemma schema_from_csv_example:
  "schema_from_csv wrap_native repr_plain (csv_fields CHR '','') py_int py_float
     [''a,b\<newline>'', ''1,foo\<newline>'', ''2,bar\<newline>''] (Some ''S'') \<lparr>append_only = False\<rparr> None None
   = Inr (plain_schema ''S'' [(''a'', INT_dt), (''b'', STR_dt)])"
  by code_simp

text \<open>
  C10 as stated fails: with \<open>num_parsed_rows=1\<close> the reader asks the generator for the
  header and one row, the empty third line is never reached, and a schema is returned.
\<close>

theorem schema_from_csv_capped_rows:
  "lstrip ''\<newline>'' = []
   \<and> schema_from_csv wrap_native repr_plain (csv_fields CHR '','') py_int py_float
        [''a\<newline>'', ''1\<newline>'', ''\<newline>''] (Some ''S'') \<lparr>append_only = False\<rparr> None (Some 1)
       = Inr (plain_schema ''S'' [(''a'', INT_dt)])"
  by code_simp

subsection \<open>\<open>schema_add\<close>\<close>

text \<open>The keys of \<open>dict(ChainMap(*maps))\<close> are the keys of all maps, each once.\<close>

lemma insert_new_keys:
  "set (fold (\<lambda>k d. if k \<in> set d then d else d @ [k]) ks d) = set d \<union> set ks
   \<and> (distinct d \<longrightarrow> distinct (fold (\<lambda>k d. if k \<in> set d then d else d @ [k]) ks d))"
  by (induction ks arbitrary: d) auto

lemma chainmap_fold_keys:
  "set (fold (\<lambda>m d. fold (\<lambda>k d. if k \<in> set d then d else d @ [k]) (map fst m) d) ms d)
     = set d \<union> (\<Union>m\<in>set ms. fst ` set m)
   \<and> (distinct d \<longrightarrow>
        distinct (fold (\<lambda>m d. fold (\<lambda>k d. if k \<in> set d then d else d @ [k]) (map fst m) d) ms d))"
proof (induction ms arbitrary: d)
  case Nil
  then show ?case by simp
next
  case (Cons m ms)
  show ?case
    using insert_new_keys [of "map fst m" d] by (auto simp: Cons.IH)
qed

lemma set_chainmap_keys: "set (chainmap_keys maps) = (\<Union>m\<in>set maps. fst ` set m)"
  using chainmap_fold_keys [of "rev maps" "[]"] by (simp add: chainmap_keys_def)

lemma distinct_chainmap_keys: "distinct (chainmap_keys maps)"
  using chainmap_fold_keys [of "rev maps" "[]"] by (simp add: chainmap_keys_def)

lemma chainmap_get_None: "chainmap_get maps k = None \<longleftrightarrow> (\<forall>m\<in>set maps. map_of m k = None)"
  by (induction maps) (auto split: option.splits)

lemma map_filter_keys:
  assumes "\<forall>k\<in>set ks. \<exists>v. f k = Some v"
  shows "map fst (List.map_filter (\<lambda>k. map_option (Pair k) (f k)) ks) = ks"
  using assms by (induction ks) (auto simp: List.map_filter_simps)

lemma map_filter_map_of:
  "map_of (List.map_filter (\<lambda>k. map_option (Pair k) (f k)) ks) k
     = (if k \<in> set ks then f k else None)"
  by (induction ks) (auto simp: List.map_filter_simps split: option.splits)

lemma chainmap_get_defined:
  assumes "k \<in> set (chainmap_keys maps)"
  shows "\<exists>v. chainmap_get maps k = Some v"
proof -
  from assms obtain m where "m \<in> set maps" "k \<in> fst ` set m"
    by (auto simp: set_chainmap_keys)
  then have "\<not> (\<forall>m\<in>set maps. map_of m k = None)"
    by (auto simp: map_of_eq_None_iff)
  then show ?thesis
    by (simp add: chainmap_get_None [symmetric])
qed

lemma keys_dict_ChainMap: "map fst (dict_ChainMap maps) = chainmap_keys maps"
  unfolding dict_ChainMap_def
  by (rule map_filter_keys) (simp add: chainmap_get_defined)

lemma map_of_dict_ChainMap: "map_of (dict_ChainMap maps) k = chainmap_get maps k"
proof (cases "k \<in> set (chainmap_keys maps)")
  case True
  then show ?thesis by (simp add: dict_ChainMap_def map_filter_map_of)
next
  case False
  then have "\<forall>m\<in>set maps. map_of m k = None"
    by (auto simp: set_chainmap_keys map_of_eq_None_iff)
  then have "chainmap_get maps k = None"
    by (simp only: chainmap_get_None)
  with False show ?thesis
    by (simp add: dict_ChainMap_def map_filter_map_of)
qed

text \<open>
  The assertion \<open>len(annotations) == sum([len(annots) for annots in annots_list])\<close>
  holds exactly when no key occurs twice in the maps.
\<close>

lemma length_dict_ChainMap:
  "length (dict_ChainMap maps) = sum_list (map length maps)
     \<longleftrightarrow> distinct (concat (map (map fst) maps))"
proof -
  have l: "length (dict_ChainMap maps) = card (set (concat (map (map fst) maps)))"
    using keys_dict_ChainMap [of maps] distinct_card [OF distinct_chainmap_keys, of maps]
    by (metis (no_types, lifting) length_map set_chainmap_keys set_concat set_map image_image
          SUP_cong)
  have s: "sum_list (map length maps) = length (concat (map (map fst) maps))"
    by (simp add: length_concat comp_def)
  show ?thesis
    unfolding l s using distinct_card card_distinct by metis
qed

lemma distinct_concat_pairwise:
  assumes "\<forall>xs\<in>set xss. distinct xs"
  shows "distinct (concat xss) \<longleftrightarrow> pairwise_disjoint xss"
  using assms by (induction xss) auto


text \<open>
  With pairwise disjoint annotation names, a look-up in the merged dictionary is the
  look-up in the schema that owns the name.
\<close>

lemma chainmap_get_owner:
  assumes "distinct (concat (map (\<lambda>S. map fst (A S)) Ss))"
    and "\<forall>S\<in>set Ss. fst ` set (F S) \<subseteq> fst ` set (A S)"
    and "S \<in> set Ss" and "k \<in> fst ` set (A S)"
  shows "chainmap_get (map F Ss) k = map_of (F S) k"
  using assms
proof (induction Ss)
  case Nil
  then show ?case by simp
next
  case (Cons S0 rest)
  from Cons.prems(1) have drest: "distinct (concat (map (\<lambda>S. map fst (A S)) rest))"
    and disj: "\<forall>S'\<in>set rest. fst ` set (A S0) \<inter> fst ` set (A S') = {}"
    by auto
  from Cons.prems(2) have sub0: "fst ` set (F S0) \<subseteq> fst ` set (A S0)"
    and subr: "\<forall>S\<in>set rest. fst ` set (F S) \<subseteq> fst ` set (A S)"
    by auto
  show ?case
  proof (cases "k \<in> fst ` set (A S0)")
    case True
    with disj have out: "\<forall>S'\<in>set rest. k \<notin> fst ` set (A S')" by blast
    with Cons.prems(3,4) have S: "S = S0" by auto
    from out subr have "\<forall>S'\<in>set rest. map_of (F S') k = None"
      by (meson map_of_eq_None_iff subsetD)
    then have "chainmap_get (map F rest) k = None"
      by (simp add: chainmap_get_None)
    then show ?thesis
      by (simp add: S split: option.splits)
  next
    case False
    with Cons.prems(3,4) have S: "S \<in> set rest" by auto
    from False sub0 have "map_of (F S0) k = None"
      by (meson map_of_eq_None_iff subsetD)
    then show ?thesis
      using Cons.IH [OF drest subr S Cons.prems(4)] by simp
  qed
qed

lemma pairwise_disjoint_subset:
  assumes "\<forall>S\<in>set Ss. set (f S) \<subseteq> set (g S)"
    and "pairwise_disjoint (map g Ss)"
  shows "pairwise_disjoint (map f Ss)"
  using assms
proof (induction Ss)
  case Nil
  then show ?case by simp
next
  case (Cons S Ss)
  then show ?case by simp blast
qed

lemma fold_update_keys:
  "fst ` set (fold (\<lambda>(n, c). AList.update n c) rs cols) = fst ` set cols \<union> fst ` set rs"
proof (induction rs arbitrary: cols)
  case Nil
  then show ?case by simp
next
  case (Cons r rs)
  obtain n c where r: "r = (n, c)" by (cases r)
  show ?case
    unfolding r by (simp add: Cons.IH AList.dom_update Un_ac)
qed

lemma resolve_append_only:
  assumes "resolve w ao n a found = Inr (n', c)"
  shows "resolve w ao' n a found = Inr (n', c\<lparr>cs_append_only := ao'\<rparr>)"
  using assms
  by (auto simp: resolve_def Let_def split: attr.splits option.splits if_splits)

lemma built_resolved:
  assumes "built w S"
  obtains rs where
    "map (\<lambda>(n, a). resolve w (append_only (properties S)) n a
                     (map_of (cls_fields (namespace S)) n)) (annotations S) = map Inr rs"
    and "columns S = fold (\<lambda>(n, c). AList.update n c) rs []"
    and "filter (\<lambda>(k, v). k \<notin> set (map fst (annotations S))) (cls_fields (namespace S)) = []"
proof -
  from assms have d: "distinct (map fst (annotations S))"
    and c: "create_column_definitions w (annotations S) (namespace S)
              (append_only (properties S)) = Inr (columns S)"
    by (simp_all add: built_def)
  from c obtain rs where
    r: "collect (map (\<lambda>(n, a). resolve w (append_only (properties S)) n a
                       (map_of (cls_fields (namespace S)) n)) (annotations S)) = Inr rs"
    and rest: "filter (\<lambda>(k, v). k \<notin> set (map fst (annotations S))) (cls_fields (namespace S)) = []"
    and cols: "columns S = fold (\<lambda>(n, c). AList.update n c) rs []"
    unfolding create_column_definitions_def create_loop_collect [OF d]
    by (auto split: sum.splits if_splits)
  from r have "map (\<lambda>(n, a). resolve w (append_only (properties S)) n a
                     (map_of (cls_fields (namespace S)) n)) (annotations S) = map Inr rs"
    by (simp only: collect_Inr_iff)
  then show ?thesis using cols rest by (rule that)
qed

lemma built_fields_subset:
  assumes "built w S"
  shows "fst ` set (cls_fields (namespace S)) \<subseteq> fst ` set (annotations S)"
proof
  fix k assume "k \<in> fst ` set (cls_fields (namespace S))"
  then obtain v where kv: "(k, v) \<in> set (cls_fields (namespace S))" by auto
  from built_resolved [OF assms] have
    "filter (\<lambda>(k, v). k \<notin> set (map fst (annotations S))) (cls_fields (namespace S)) = []"
    by blast
  with kv show "k \<in> fst ` set (annotations S)"
    by (auto simp: filter_empty_conv)
qed

lemma cls_fields_idem_ChainMap:
  "cls_fields (dict_ChainMap (map (\<lambda>S. cls_fields (namespace S)) schemas))
     = dict_ChainMap (map (\<lambda>S. cls_fields (namespace S)) schemas)"
proof -
  let ?flds = "dict_ChainMap (map (\<lambda>S. cls_fields (namespace S)) schemas)"
  have "\<not> startswith k ''__''" if "(k, v) \<in> set ?flds" for k v
  proof -
    from that have "k \<in> set (map fst ?flds)" by force
    then obtain S where "S \<in> set schemas" "k \<in> fst ` set (cls_fields (namespace S))"
      by (auto simp: keys_dict_ChainMap set_chainmap_keys)
    then show ?thesis by (auto simp: cls_fields_def)
  qed
  then show ?thesis
    unfolding cls_fields_def [of ?flds] by (auto simp: filter_id_conv)
qed

text \<open>
  Where no key is shared, the merged dictionary is the concatenation of the dictionaries,
  the last one first, and every name is resolved in the schema that annotates it.
\<close>

lemma update_skip:
  "k \<notin> fst ` set acc \<Longrightarrow> AList.update k v (acc @ acc') = acc @ AList.update k v acc'"
  by (induction acc) auto

lemma fold_update_disjoint:
  assumes "fst ` set rs \<inter> fst ` set acc = {}"
  shows "fold (\<lambda>(n, c). AList.update n c) rs (acc @ acc')
           = acc @ fold (\<lambda>(n, c). AList.update n c) rs acc'"
  using assms
proof (induction rs arbitrary: acc')
  case Nil
  then show ?case by simp
next
  case (Cons r rs)
  obtain n c where r: "r = (n, c)" by (cases r)
  from Cons.prems have "n \<notin> fst ` set acc" and "fst ` set rs \<inter> fst ` set acc = {}"
    by (auto simp: r)
  then show ?case
    by (simp add: r update_skip Cons.IH)
qed

lemma update_map_values:
  "AList.update k (f v) (map (\<lambda>(n, c). (n, f c)) al) = map (\<lambda>(n, c). (n, f c)) (AList.update k v al)"
  by (induction al) auto

lemma fold_update_map_values:
  "fold (\<lambda>(n, c). AList.update n c) (map (\<lambda>(n, c). (n, f c)) rs) (map (\<lambda>(n, c). (n, f c)) acc)
     = map (\<lambda>(n, c). (n, f c)) (fold (\<lambda>(n, c). AList.update n c) rs acc)"
proof (induction rs arbitrary: acc)
  case Nil
  then show ?case by simp
next
  case (Cons r rs)
  obtain n c where r: "r = (n, c)" by (cases r)
  show ?case
    by (simp add: r update_map_values Cons.IH)
qed

lemma distinct_fold_update:
  "distinct (map fst acc) \<Longrightarrow> distinct (map fst (fold (\<lambda>(n, c). AList.update n c) rs acc))"
proof (induction rs arbitrary: acc)
  case Nil
  then show ?case by simp
next
  case (Cons r rs)
  obtain n c where r: "r = (n, c)" by (cases r)
  from Cons.prems have "distinct (map fst (AList.update n c acc))"
    by (rule AList.distinct_update)
  from Cons.IH [OF this] show ?case by (simp add: r)
qed

lemma built_distinct_keys:
  assumes "built w S"
  shows "distinct (keys S)"
proof -
  from built_resolved [OF assms] obtain rs where
    "columns S = fold (\<lambda>(n, c). AList.update n c) rs []" by blast
  then show ?thesis
    using distinct_fold_update [of "[]" rs] by (simp add: keys_def)
qed

lemma insert_new_keys_append:
  "distinct (d @ ks) \<Longrightarrow> fold (\<lambda>k d. if k \<in> set d then d else d @ [k]) ks d = d @ ks"
  by (induction ks arbitrary: d) auto

lemma chainmap_fold_append:
  assumes "distinct (d @ concat (map (map fst) ms))"
  shows "fold (\<lambda>m d. fold (\<lambda>k d. if k \<in> set d then d else d @ [k]) (map fst m) d) ms d
           = d @ concat (map (map fst) ms)"
  using assms
proof (induction ms arbitrary: d)
  case Nil
  then show ?case by simp
next
  case (Cons m ms)
  from Cons.prems have a: "distinct (d @ map fst m)"
    and b: "distinct ((d @ map fst m) @ concat (map (map fst) ms))"
    by auto
  show ?case
    by (simp add: insert_new_keys_append [OF a] Cons.IH [OF b])
qed

lemma chainmap_keys_disjoint:
  assumes "distinct (concat (map (map fst) maps))"
  shows "chainmap_keys maps = concat (map (map fst) (rev maps))"
proof -
  from assms have "distinct (concat (map (map fst) (rev maps)))"
    by (simp add: rev_map [symmetric])
  then show ?thesis
    using chainmap_fold_append [of "[]" "rev maps"] by (simp add: chainmap_keys_def)
qed

lemma chainmap_get_concat_rev:
  assumes "distinct (concat (map (map fst) maps))"
  shows "chainmap_get maps k = map_of (concat (rev maps)) k"
  using assms
proof (induction maps)
  case Nil
  then show ?case by simp
next
  case (Cons m maps)
  from Cons.prems have d: "distinct (concat (map (map fst) maps))"
    and disj: "fst ` set m \<inter> (\<Union>m'\<in>set maps. fst ` set m') = {}"
    by auto
  have ih: "chainmap_get maps k = map_of (concat (rev maps)) k"
    by (rule Cons.IH [OF d])
  show ?case
  proof (cases "map_of m k")
    case None
    then show ?thesis
      by (simp add: ih map_add_def split: option.splits)
  next
    case (Some v)
    then have "k \<in> fst ` set m"
      by (metis map_of_eq_None_iff option.distinct(1))
    with disj have "\<forall>m'\<in>set maps. map_of m' k = None"
      by (meson disjoint_iff UN_I map_of_eq_None_iff)
    then have "chainmap_get maps k = None"
      by (simp only: chainmap_get_None)
    with ih Some show ?thesis
      by (simp add: map_add_def split: option.splits)
  qed
qed

lemma alist_eqI:
  assumes "map fst xs = map fst ys" and "distinct (map fst xs)"
    and "\<forall>k\<in>set (map fst xs). map_of xs k = map_of ys k"
  shows "xs = ys"
  using assms
proof (induction xs arbitrary: ys)
  case Nil
  then show ?case by simp
next
  case (Cons x xs)
  from Cons.prems(1) obtain y ys' where ys: "ys = y # ys'" and f: "fst x = fst y"
    and m: "map fst xs = map fst ys'"
    by (cases ys) auto
  from Cons.prems(3) have "map_of (x # xs) (fst x) = map_of (y # ys') (fst x)"
    by (simp add: ys)
  with f have xy: "x = y" by (cases x; cases y) (simp split: if_splits)
  have "\<forall>k\<in>set (map fst xs). map_of xs k = map_of ys' k"
  proof
    fix k assume k: "k \<in> set (map fst xs)"
    with Cons.prems(2) have "k \<noteq> fst x" by force
    with Cons.prems(3) k xy show "map_of xs k = map_of ys' k"
      by (cases x) (force simp: ys)
  qed
  from Cons.IH [OF m _ this] Cons.prems(2) xy show ?case by (simp add: ys)
qed

lemma dict_ChainMap_disjoint:
  assumes "distinct (concat (map (map fst) maps))"
  shows "dict_ChainMap maps = concat (rev maps)"
proof (rule alist_eqI)
  show "map fst (dict_ChainMap maps) = map fst (concat (rev maps))"
    by (simp add: keys_dict_ChainMap chainmap_keys_disjoint [OF assms] map_concat rev_map)
  show "distinct (map fst (dict_ChainMap maps))"
    by (simp add: keys_dict_ChainMap distinct_chainmap_keys)
  show "\<forall>k\<in>set (map fst (dict_ChainMap maps)).
          map_of (dict_ChainMap maps) k = map_of (concat (rev maps)) k"
    by (simp add: map_of_dict_ChainMap chainmap_get_concat_rev [OF assms])
qed

lemma pairwise_disjoint_rev:
  assumes "\<forall>xs\<in>set xss. distinct xs"
  shows "pairwise_disjoint (rev xss) = pairwise_disjoint xss"
proof -
  have "pairwise_disjoint (rev xss) = distinct (concat (rev xss))"
    using assms by (intro distinct_concat_pairwise [symmetric]) simp
  also have "\<dots> = distinct (concat xss)" by simp
  also have "\<dots> = pairwise_disjoint xss"
    using assms by (rule distinct_concat_pairwise)
  finally show ?thesis .
qed


lemma resolve_blocks:
  assumes b: "\<forall>S\<in>set Ss. built w S"
    and look: "\<forall>S\<in>set Ss. \<forall>n\<in>fst ` set (annotations S).
                 look n = map_of (cls_fields (namespace S)) n"
    and pd: "pairwise_disjoint (map keys Ss)"
    and acc: "fst ` set acc \<inter> (\<Union>S\<in>set Ss. set (keys S)) = {}"
  shows "\<exists>rs. map (\<lambda>(n, a). resolve w False n a (look n)) (concat (map annotations Ss))
                = map Inr rs
              \<and> fold (\<lambda>(n, c). AList.update n c) rs acc
                = acc @ concat (map (\<lambda>S. map (\<lambda>(n, c). (n, c\<lparr>cs_append_only := False\<rparr>))
                                          (columns S)) Ss)"
  using assms
proof (induction Ss arbitrary: acc)
  case Nil
  show ?case by (rule exI [of _ "[]"]) simp
next
  case (Cons S Ss)
  let ?reset = "\<lambda>(n, c). (n, c\<lparr>cs_append_only := False\<rparr>)"
  let ?g = "\<lambda>(n, a). resolve w False n a (look n)"
  let ?gS = "\<lambda>(n, a). resolve w (append_only (properties S)) n a
                        (map_of (cls_fields (namespace S)) n)"
  from Cons.prems(1) have bS: "built w S" and bSs: "\<forall>S\<in>set Ss. built w S" by auto
  from Cons.prems(2) have lookS: "\<forall>n\<in>fst ` set (annotations S).
                                     look n = map_of (cls_fields (namespace S)) n"
    and lookSs: "\<forall>S\<in>set Ss. \<forall>n\<in>fst ` set (annotations S).
                   look n = map_of (cls_fields (namespace S)) n"
    by auto
  from Cons.prems(3) have disjS: "\<forall>S'\<in>set Ss. set (keys S) \<inter> set (keys S') = {}"
    and pdSs: "pairwise_disjoint (map keys Ss)"
    by auto
  from Cons.prems(4) have accS: "fst ` set acc \<inter> set (keys S) = {}"
    and accSs: "fst ` set acc \<inter> (\<Union>S\<in>set Ss. set (keys S)) = {}"
    by auto
  from built_resolved [OF bS] obtain rsS where
    m: "map ?gS (annotations S) = map Inr rsS"
    and cols: "columns S = fold (\<lambda>(n, c). AList.update n c) rsS []"
    by blast
  have step: "?g x = (case ?gS x of Inl e \<Rightarrow> Inl e | Inr r \<Rightarrow> Inr (?reset r))"
    if x: "x \<in> set (annotations S)" for x
  proof -
    obtain n a where xa: "x = (n, a)" by (cases x)
    from x have "?gS x \<in> set (map ?gS (annotations S))" by (simp only: set_map) (rule imageI)
    then have "?gS x \<in> set (map Inr rsS)" by (simp only: m)
    then obtain n' c where res: "?gS x = Inr (n', c)" by auto
    from x have n: "n \<in> fst ` set (annotations S)" by (force simp: xa)
    from res have res': "resolve w (append_only (properties S)) n a
                           (map_of (cls_fields (namespace S)) n) = Inr (n', c)"
      by (simp add: xa)
    from lookS n have ln: "look n = map_of (cls_fields (namespace S)) n" by (rule bspec)
    from resolve_append_only [OF res', of False]
    have "?g x = Inr (n', c\<lparr>cs_append_only := False\<rparr>)"
      by (simp only: xa prod.case ln)
    with res show ?thesis by simp
  qed
  have "map ?g (annotations S)
          = map (\<lambda>x. case ?gS x of Inl e \<Rightarrow> Inl e | Inr r \<Rightarrow> Inr (?reset r)) (annotations S)"
    using step by (intro map_cong refl) blast
  also have "\<dots> = map (\<lambda>y. case y of Inl e \<Rightarrow> Inl e | Inr r \<Rightarrow> Inr (?reset r))
                     (map ?gS (annotations S))"
    by (simp only: map_map comp_def)
  also have "\<dots> = map Inr (map ?reset rsS)"
    by (simp only: m) simp
  finally have mS: "map ?g (annotations S) = map Inr (map ?reset rsS)" .
  have keysS: "fst ` set rsS = set (keys S)"
    using fold_update_keys [of rsS "[]"] by (simp add: keys_def cols)
  have keys_reset: "fst ` set (map ?reset xs) = fst ` set xs" for xs :: "(string \<times> ('a, 'b) ColumnSchema) list"
    by force
  have "fst ` set (map ?reset rsS) \<inter> fst ` set acc = {}"
    unfolding keys_reset keysS using accS by blast
  from fold_update_disjoint [OF this, of "[]"]
  have "fold (\<lambda>(n, c). AList.update n c) (map ?reset rsS) acc
          = acc @ fold (\<lambda>(n, c). AList.update n c) (map ?reset rsS) []"
    by simp
  also have "fold (\<lambda>(n, c). AList.update n c) (map ?reset rsS) [] = map ?reset (columns S)"
    using fold_update_map_values [of "\<lambda>c. c\<lparr>cs_append_only := False\<rparr>" rsS "[]"]
    by (simp add: cols)
  finally have foldS: "fold (\<lambda>(n, c). AList.update n c) (map ?reset rsS) acc
                         = acc @ map ?reset (columns S)" .
  have "fst ` set (acc @ map ?reset (columns S)) \<inter> (\<Union>S\<in>set Ss. set (keys S)) = {}"
  proof -
    have "fst ` set (map ?reset (columns S)) = set (keys S)"
      unfolding keys_reset by (simp add: keys_def)
    then have "fst ` set (acc @ map ?reset (columns S)) = fst ` set acc \<union> set (keys S)"
      by (simp only: set_append image_Un)
    with accSs disjS show ?thesis by blast
  qed
  from Cons.IH [OF bSs lookSs pdSs this] obtain rs' where
    m': "map ?g (concat (map annotations Ss)) = map Inr rs'"
    and f': "fold (\<lambda>(n, c). AList.update n c) rs' (acc @ map ?reset (columns S))
               = (acc @ map ?reset (columns S))
                 @ concat (map (\<lambda>S. map ?reset (columns S)) Ss)"
    by blast
  have "map ?g (concat (map annotations (S # Ss))) = map Inr (map ?reset rsS @ rs')"
    using mS m' by simp
  moreover have "fold (\<lambda>(n, c). AList.update n c) (map ?reset rsS @ rs') acc
                   = acc @ concat (map (\<lambda>S. map ?reset (columns S)) (S # Ss))"
    using foldS f' by simp
  ultimately show ?case by blast
qed

lemma schema_add_columns:
  assumes b: "\<forall>S\<in>set schemas. built w S"
    and pd: "pairwise_disjoint (map (\<lambda>S. map fst (annotations S)) schemas)"
    and pk: "pairwise_disjoint (map keys schemas)"
  shows "\<exists>R. schema_add w schemas = Inr R
             \<and> properties R = \<lparr>append_only = False\<rparr>
             \<and> columns R
               = concat (map (\<lambda>S. map (\<lambda>(n, c). (n, c\<lparr>cs_append_only := False\<rparr>))
                                    (columns S)) (rev schemas))"
proof -
  let ?AL = "map annotations schemas"
  let ?FL = "map (\<lambda>S. cls_fields (namespace S)) schemas"
  let ?annots = "dict_ChainMap ?AL"
  let ?flds = "dict_ChainMap ?FL"
  let ?g = "\<lambda>(n, a). resolve w False n a (map_of ?flds n)"
  let ?cols = "concat (map (\<lambda>S. map (\<lambda>(n, c). (n, c\<lparr>cs_append_only := False\<rparr>))
                                 (columns S)) (rev schemas))"
  have dA: "\<forall>xs\<in>set (map (\<lambda>S. map fst (annotations S)) schemas). distinct xs"
    using b by (auto simp: built_def)
  have cA: "map (map fst) ?AL = map (\<lambda>S. map fst (annotations S)) schemas"
    by simp
  have lenA: "length ?annots = sum_list (map length ?AL)
                \<longleftrightarrow> pairwise_disjoint (map (\<lambda>S. map fst (annotations S)) schemas)"
    unfolding length_dict_ChainMap cA by (rule distinct_concat_pairwise [OF dA])
  have dcA: "distinct (concat (map (\<lambda>S. map fst (annotations S)) schemas))"
    using pd distinct_concat_pairwise [OF dA] by simp
  have sub: "\<forall>S\<in>set schemas. fst ` set (cls_fields (namespace S)) \<subseteq> fst ` set (annotations S)"
    using b built_fields_subset by blast
  have dF: "\<forall>xs\<in>set (map (\<lambda>S. map fst (cls_fields (namespace S))) schemas). distinct xs"
    using b by (auto simp: built_def cls_fields_def distinct_map_filter)
  have pdF: "pairwise_disjoint (map (\<lambda>S. map fst (cls_fields (namespace S))) schemas)"
    using sub by (intro pairwise_disjoint_subset [OF _ pd]) simp
  have cF: "map (map fst) ?FL = map (\<lambda>S. map fst (cls_fields (namespace S))) schemas"
    by simp
  have lenF: "length ?flds = sum_list (map length ?FL)"
    unfolding length_dict_ChainMap cF using distinct_concat_pairwise [OF dF] pdF by simp
  have key_annots: "set (map fst ?annots) = (\<Union>S\<in>set schemas. fst ` set (annotations S))"
    by (simp add: keys_dict_ChainMap set_chainmap_keys)
  have key_flds: "set (map fst ?flds) = (\<Union>S\<in>set schemas. fst ` set (cls_fields (namespace S)))"
    by (simp add: keys_dict_ChainMap set_chainmap_keys)
  have d_annots: "distinct (map fst ?annots)"
    by (simp add: keys_dict_ChainMap distinct_chainmap_keys)
  have own_f: "map_of ?flds n = map_of (cls_fields (namespace S)) n"
    if "S \<in> set schemas" "n \<in> fst ` set (annotations S)" for S n
    unfolding map_of_dict_ChainMap by (rule chainmap_get_owner [OF dcA sub that])
  have "distinct (concat (map (map fst) ?AL))"
    using dcA by (simp only: cA)
  then have "?annots = concat (rev ?AL)"
    by (rule dict_ChainMap_disjoint)
  then have annots: "?annots = concat (map annotations (rev schemas))"
    by (simp only: rev_map)
  have dK: "\<forall>xs\<in>set (map keys schemas). distinct xs"
    using b built_distinct_keys by auto
  have pk_rev: "pairwise_disjoint (map keys (rev schemas))"
    using pairwise_disjoint_rev [OF dK] pk by (simp only: rev_map)
  have "\<exists>rs. map (\<lambda>(n, a). resolve w False n a (map_of ?flds n))
                (concat (map annotations (rev schemas))) = map Inr rs
             \<and> fold (\<lambda>(n, c). AList.update n c) rs []
               = [] @ concat (map (\<lambda>S. map (\<lambda>(n, c). (n, c\<lparr>cs_append_only := False\<rparr>))
                                          (columns S)) (rev schemas))"
  proof (rule resolve_blocks [OF _ _ pk_rev])
    show "\<forall>S\<in>set (rev schemas). built w S" using b by simp
    show "\<forall>S\<in>set (rev schemas). \<forall>n\<in>fst ` set (annotations S).
            map_of ?flds n = map_of (cls_fields (namespace S)) n"
      using own_f by simp
    show "fst ` set [] \<inter> (\<Union>S\<in>set (rev schemas). set (keys S)) = {}" by simp
  qed
  then obtain rs where
    mrs: "map ?g (concat (map annotations (rev schemas))) = map Inr rs"
    and frs: "fold (\<lambda>(n, c). AList.update n c) rs [] = ?cols"
    by auto
  from mrs have "map ?g ?annots = map Inr rs" by (simp only: annots)
  then have crs: "collect (map ?g ?annots) = Inr rs" by (simp only: collect_Inr_iff)
  have left: "filter (\<lambda>(k, v). k \<notin> set (map fst ?annots)) ?flds = []"
  proof -
    have "k \<in> set (map fst ?annots)" if "(k, v) \<in> set ?flds" for k v
    proof -
      from that have "k \<in> set (map fst ?flds)" by force
      then show ?thesis unfolding key_flds key_annots using sub by blast
    qed
    then show ?thesis by (auto simp: filter_empty_conv)
  qed
  have "schema_add w schemas =
          Inr \<lparr>schema_name = join ''_'' (map schema_name schemas), annotations = ?annots,
               namespace = ?flds, properties = \<lparr>append_only = False\<rparr>,
               columns = fold (\<lambda>(n, c). AList.update n c) rs []\<rparr>"
    using pd lenA lenF
    by (simp add: schema_add_def Let_def schema_builder_internal_def SchemaMetaclass_def
          create_column_definitions_def cls_fields_idem_ChainMap
          create_loop_collect [OF d_annots] crs left [unfolded set_map])
  then show ?thesis
    by (simp add: frs)
qed

text \<open>
  C2, as the code has it: for schemas as \<open>SchemaMetaclass\<close> leaves them, when the
  annotated attribute names of the inputs are pairwise disjoint and so are their column
  names, \<open>schema_add\<close> returns a schema with the default properties whose columns have
  distinct names and are, as a set, exactly the union of the inputs' columns: each
  column under its name with its dtype, primary-key flag and default value, and with the
  append-only flag of the result, which is false. When two inputs share an annotated
  attribute name, the first \<open>assert\<close> fails, and the \<open>AssertionError\<close> carries no
  message and names no column. For schemas without renamed columns the attribute names
  are the column names.
\<close>

theorem schema_add_disjoint_union:
  assumes b: "\<forall>S\<in>set schemas. built w S"
  shows "(pairwise_disjoint (map (\<lambda>S. map fst (annotations S)) schemas)
            \<and> pairwise_disjoint (map keys schemas) \<longrightarrow>
            (\<exists>R. schema_add w schemas = Inr R
                  \<and> properties R = \<lparr>append_only = False\<rparr>
                  \<and> distinct (keys R)
                  \<and> set (columns R)
                    = (\<Union>S\<in>set schemas. (\<lambda>(n, c). (n, c\<lparr>cs_append_only := False\<rparr>))
                                             ` set (columns S))))
         \<and> (\<not> pairwise_disjoint (map (\<lambda>S. map fst (annotations S)) schemas) \<longrightarrow>
              schema_add w schemas = Inl (AssertionError NoMessage))"
proof (intro conjI impI)
  assume "pairwise_disjoint (map (\<lambda>S. map fst (annotations S)) schemas)
            \<and> pairwise_disjoint (map keys schemas)"
  then have pd: "pairwise_disjoint (map (\<lambda>S. map fst (annotations S)) schemas)"
    and pk: "pairwise_disjoint (map keys schemas)"
    by simp_all
  from schema_add_columns [OF b pd pk] obtain R where
    R: "schema_add w schemas = Inr R" and props: "properties R = \<lparr>append_only = False\<rparr>"
    and cols: "columns R
                 = concat (map (\<lambda>S. map (\<lambda>(n, c). (n, c\<lparr>cs_append_only := False\<rparr>))
                                      (columns S)) (rev schemas))"
    by blast
  have dK: "\<forall>xs\<in>set (map keys schemas). distinct xs"
    using b built_distinct_keys by auto
  have "keys R = concat (map keys (rev schemas))"
    unfolding keys_def cols map_concat map_map
    by (rule arg_cong [of _ _ concat]) (auto simp: comp_def case_prod_beta)
  also have "\<dots> = concat (rev (map keys schemas))"
    by (simp only: rev_map)
  finally have "distinct (keys R) = distinct (concat (map keys schemas))"
    by simp
  with pk distinct_concat_pairwise [OF dK] have dR: "distinct (keys R)"
    by simp
  have "set (columns R)
          = (\<Union>S\<in>set schemas. (\<lambda>(n, c). (n, c\<lparr>cs_append_only := False\<rparr>)) ` set (columns S))"
    unfolding cols by auto
  with R props dR
  show "\<exists>R. schema_add w schemas = Inr R
             \<and> properties R = \<lparr>append_only = False\<rparr>
             \<and> distinct (keys R)
             \<and> set (columns R)
               = (\<Union>S\<in>set schemas. (\<lambda>(n, c). (n, c\<lparr>cs_append_only := False\<rparr>))
                                        ` set (columns S))"
    by blast
next
  assume npd: "\<not> pairwise_disjoint (map (\<lambda>S. map fst (annotations S)) schemas)"
  have dA: "\<forall>xs\<in>set (map (\<lambda>S. map fst (annotations S)) schemas). distinct xs"
    using b by (auto simp: built_def)
  have cA: "map (map fst) (map annotations schemas)
              = map (\<lambda>S. map fst (annotations S)) schemas"
    by simp
  have "length (dict_ChainMap (map annotations schemas))
          = sum_list (map length (map annotations schemas))
        \<longleftrightarrow> pairwise_disjoint (map (\<lambda>S. map fst (annotations S)) schemas)"
    unfolding length_dict_ChainMap cA by (rule distinct_concat_pairwise [OF dA])
  with npd show "schema_add w schemas = Inl (AssertionError NoMessage)"
    by (simp add: schema_add_def Let_def)
qed

text \<open>
  The schemas \<open>renamed_schema\<close> and \<open>append_only_schema\<close> are what the metaclass makes
  of their class bodies.
\<close>

lemma renamed_schema_built:
  "SchemaMetaclass wrap_native ''Renamed'' [(''a'', Native Py_int)]
     [(''a'', Definition (column_definition wrap_native False no_default_value_marker None
                            (Some ''x'')))] False
   = Inr renamed_schema"
  by code_simp

lemma append_only_schema_built:
  "SchemaMetaclass wrap_native ''Log'' [(''x'', Native Py_int)] [] True = Inr append_only_schema"
  by code_simp

text \<open>
  The union of the append-only \<open>{x: int}\<close> and \<open>{y: str}\<close> has the columns \<open>x\<close> and
  \<open>y\<close>, neither append-only; the union of \<open>{x: int}\<close> and \<open>{x: str}\<close> fails.
\<close>

theorem schema_add_disjoint_union_witness:
  "built wrap_native append_only_schema
   \<and> built wrap_native (plain_schema ''B'' [(''y'', STR_dt)])
   \<and> pairwise_disjoint (map (\<lambda>S. map fst (annotations S))
        [append_only_schema, plain_schema ''B'' [(''y'', STR_dt)]])
   \<and> pairwise_disjoint (map keys [append_only_schema, plain_schema ''B'' [(''y'', STR_dt)]])
   \<and> (\<exists>R. schema_add wrap_native [append_only_schema, plain_schema ''B'' [(''y'', STR_dt)]]
            = Inr R
          \<and> properties R = \<lparr>append_only = False\<rparr>
          \<and> distinct (keys R)
          \<and> set (columns R)
            = {(''x'', \<lparr>cs_primary_key = False, cs_default_value = no_default_value_marker,
                        cs_dtype = INT_dt, cs_name = ''x'', cs_append_only = False\<rparr>),
               (''y'', \<lparr>cs_primary_key = False, cs_default_value = no_default_value_marker,
                        cs_dtype = STR_dt, cs_name = ''y'', cs_append_only = False\<rparr>)})
   \<and> built wrap_native (plain_schema ''A'' [(''x'', INT_dt)])
   \<and> built wrap_native (plain_schema ''B'' [(''x'', STR_dt)])
   \<and> \<not> pairwise_disjoint (map (\<lambda>S. map fst (annotations S))
          [plain_schema ''A'' [(''x'', INT_dt)], plain_schema ''B'' [(''x'', STR_dt)]])
   \<and> schema_add wrap_native
        [plain_schema ''A'' [(''x'', INT_dt)], plain_schema ''B'' [(''x'', STR_dt)]]
      = Inl (AssertionError NoMessage)"
proof -
  let ?L = "append_only_schema"
  let ?B = "plain_schema ''B'' [(''y'', STR_dt)]"
  let ?A = "plain_schema ''A'' [(''x'', INT_dt)]"
  let ?C = "plain_schema ''B'' [(''x'', STR_dt)]"
  have bL: "built wrap_native ?L" by code_simp
  have bB: "built wrap_native ?B" by code_simp
  have bA: "built wrap_native ?A" by code_simp
  have bC: "built wrap_native ?C" by code_simp
  have b1: "\<forall>S\<in>set [?L, ?B]. built wrap_native S" using bL bB by simp
  have b2: "\<forall>S\<in>set [?A, ?C]. built wrap_native S" using bA bC by simp
  have p1: "pairwise_disjoint (map (\<lambda>S. map fst (annotations S)) [?L, ?B])"
    by (simp add: plain_schema_def append_only_schema_def)
  have k1: "pairwise_disjoint (map keys [?L, ?B])"
    by (simp add: plain_schema_def append_only_schema_def keys_def)
  have p2: "\<not> pairwise_disjoint (map (\<lambda>S. map fst (annotations S)) [?A, ?C])"
    by (simp add: plain_schema_def)
  have u: "(\<Union>S\<in>set [?L, ?B]. (\<lambda>(n, c). (n, c\<lparr>cs_append_only := False\<rparr>)) ` set (columns S))
             = {(''x'', \<lparr>cs_primary_key = False, cs_default_value = no_default_value_marker,
                         cs_dtype = INT_dt, cs_name = ''x'', cs_append_only = False\<rparr>),
                (''y'', \<lparr>cs_primary_key = False, cs_default_value = no_default_value_marker,
                         cs_dtype = STR_dt, cs_name = ''y'', cs_append_only = False\<rparr>)}"
    by (simp add: plain_schema_def append_only_schema_def insert_commute)
  from schema_add_disjoint_union [OF b1] p1 k1
  have r1: "\<exists>R. schema_add wrap_native [?L, ?B] = Inr R
                 \<and> properties R = \<lparr>append_only = False\<rparr>
                 \<and> distinct (keys R)
                 \<and> set (columns R)
                   = {(''x'', \<lparr>cs_primary_key = False, cs_default_value = no_default_value_marker,
                               cs_dtype = INT_dt, cs_name = ''x'', cs_append_only = False\<rparr>),
                      (''y'', \<lparr>cs_primary_key = False, cs_default_value = no_default_value_marker,
                               cs_dtype = STR_dt, cs_name = ''y'', cs_append_only = False\<rparr>)}"
    unfolding u by blast
  from schema_add_disjoint_union [OF b2] p2
  have r2: "schema_add wrap_native [?A, ?C] = Inl (AssertionError NoMessage)"
    by blast
  from bL bB p1 k1 r1 bA bC p2 r2 show ?thesis by blast
qed

text \<open>
  C2 as stated fails on each of these. Two schemas that share the column \<open>x\<close> make
  \<open>schema_add\<close> raise an \<open>AssertionError\<close> without any message, so the colliding name is
  not reported. The schema \<open>renamed_schema\<close> (column \<open>x\<close>) and a schema with the column
  \<open>a\<close> have disjoint column names, yet \<open>schema_add\<close> fails on them, because both
  annotate the attribute \<open>a\<close>. The schema \<open>renamed_schema\<close> and a schema with the column
  \<open>x: str\<close> share the column name \<open>x\<close>, yet \<open>schema_add\<close> raises nothing: the result
  has the one column \<open>x: int\<close>, the other is overwritten. And the union of
  \<open>append_only_schema\<close> alone has its column with the append-only flag cleared, which
  is not the column of the input.
\<close>

theorem schema_add_unnamed_collision:
  "schema_add wrap_native
     [plain_schema ''A'' [(''x'', INT_dt)], plain_schema ''B'' [(''x'', STR_dt)]]
     = Inl (AssertionError NoMessage)
   \<and> keys renamed_schema = [''x'']
   \<and> keys (plain_schema ''B'' [(''a'', STR_dt)]) = [''a'']
   \<and> schema_add wrap_native [renamed_schema, plain_schema ''B'' [(''a'', STR_dt)]]
     = Inl (AssertionError NoMessage)
   \<and> keys (plain_schema ''B'' [(''x'', STR_dt)]) = [''x'']
   \<and> schema_add wrap_native [renamed_schema, plain_schema ''B'' [(''x'', STR_dt)]]
     = Inr \<lparr>schema_name = ''Renamed_B'',
            annotations = [(''x'', DT STR_dt), (''a'', Native Py_int)],
            namespace = [(''x'', Definition (plain_definition STR_dt)),
                         (''a'', Definition \<lparr>cd_primary_key = False,
                                              cd_default_value = no_default_value_marker,
                                              cd_dtype = None, cd_name = Some ''x''\<rparr>)],
            properties = \<lparr>append_only = False\<rparr>,
            columns = [(''x'', \<lparr>cs_primary_key = False,
                                cs_default_value = no_default_value_marker,
                                cs_dtype = INT_dt, cs_name = ''x'', cs_append_only = False\<rparr>)]\<rparr>
   \<and> columns append_only_schema
     = [(''x'', \<lparr>cs_primary_key = False, cs_default_value = no_default_value_marker,
                 cs_dtype = INT_dt, cs_name = ''x'', cs_append_only = True\<rparr>)]
   \<and> schema_add wrap_native [append_only_schema]
     = Inr \<lparr>schema_name = ''Log'',
            annotations = [(''x'', Native Py_int)],
            namespace = [],
            properties = \<lparr>append_only = False\<rparr>,
            columns = [(''x'', \<lparr>cs_primary_key = False,
                                cs_default_value = no_default_value_marker,
                                cs_dtype = INT_dt, cs_name = ''x'', cs_append_only = False\<rparr>)]\<rparr>"
  by code_simp


subsection \<open>\<open>update_types\<close> on plain column names\<close>

lemma update_new_key:
  "k \<notin> fst ` set al \<Longrightarrow> AList.update k v al = al @ [(k, v)]"
  by (induction al) auto

lemma fold_update_append:
  assumes "distinct (map fst (acc @ xs))"
  shows "fold (\<lambda>(k, v). AList.update k v) xs acc = acc @ xs"
  using assms
proof (induction xs arbitrary: acc)
  case Nil
  then show ?case by simp
next
  case (Cons x xs)
  obtain k v where x: "x = (k, v)" by (cases x)
  from Cons.prems have k: "k \<notin> fst ` set acc" and d: "distinct (map fst ((acc @ [(k, v)]) @ xs))"
    by (auto simp: x)
  show ?case
    using Cons.IH [OF d] by (simp add: x update_new_key [OF k])
qed

lemma map_other_keys:
  "k \<notin> fst ` set al \<Longrightarrow> map (\<lambda>(n, d). if n = k then (n, v) else (n, d)) al = al"
  by (induction al) auto

lemma update_present:
  assumes "distinct (map fst al)" and "k \<in> fst ` set al"
  shows "AList.update k v al = map (\<lambda>(n, d). if n = k then (n, v) else (n, d)) al"
  using assms
proof (induction al)
  case Nil
  then show ?case by simp
next
  case (Cons p al)
  obtain n d where p: "p = (n, d)" by (cases p)
  show ?case
  proof (cases "n = k")
    case True
    with Cons.prems have "k \<notin> fst ` set al" by (auto simp: p)
    then show ?thesis by (simp add: p True map_other_keys)
  next
    case False
    with Cons show ?thesis by (auto simp: p)
  qed
qed

lemma update_types_loop_ok:
  assumes "distinct (map fst kwargs)" and "distinct (map fst cols)"
    and "set (map fst kwargs) \<subseteq> fst ` set cols"
  shows "update_types_loop w kwargs cols =
           Inr (map (\<lambda>(n, d). (n, case map_of kwargs n of
                                      None \<Rightarrow> d
                                    | Some t \<Rightarrow> d\<lparr>cd_dtype := Some (wrap w t)\<rparr>)) cols)"
  using assms
proof (induction kwargs arbitrary: cols)
  case Nil
  then show ?case by (simp add: case_prod_unfold)
next
  case (Cons p kwargs)
  obtain k t where p: "p = (k, t)" by (cases p)
  from Cons.prems have kin: "k \<in> fst ` set cols" and knot: "k \<notin> fst ` set kwargs"
    and dk: "distinct (map fst kwargs)" and sub: "set (map fst kwargs) \<subseteq> fst ` set cols"
    by (auto simp: p)
  from kin obtain c where c: "map_of cols k = Some c"
    by (metis map_of_eq_None_iff not_Some_eq)
  let ?cols' = "AList.update k (c\<lparr>cd_dtype := Some (wrap w t)\<rparr>) cols"
  have d': "distinct (map fst ?cols')"
    using Cons.prems(2) by (rule AList.distinct_update)
  have s': "set (map fst kwargs) \<subseteq> fst ` set ?cols'"
    using sub by (auto simp: AList.dom_update)
  have none: "map_of kwargs k = None"
    using knot by (simp add: map_of_eq_None_iff)
  have "map (\<lambda>(n, d). (n, case map_of kwargs n of None \<Rightarrow> d
                            | Some t \<Rightarrow> d\<lparr>cd_dtype := Some (wrap w t)\<rparr>)) ?cols'
        = map (\<lambda>(n, d). (n, case map_of ((k, t) # kwargs) n of None \<Rightarrow> d
                            | Some t \<Rightarrow> d\<lparr>cd_dtype := Some (wrap w t)\<rparr>)) cols"
  proof -
    have only: "b = c" if "(k, b) \<in> set cols" for b
      using that c Cons.prems(2) by simp
    show ?thesis
      unfolding update_present [OF Cons.prems(2) kin] map_map
      by (rule map_cong [OF refl]) (auto simp: none dest: only)
  qed
  then show ?case
    using Cons.IH [OF dk d' s'] by (simp add: p c)
qed

lemma update_types_loop_unknown:
  assumes "\<not> set (map fst kwargs) \<subseteq> fst ` set cols"
  shows "update_types_loop w kwargs cols =
           Inl (ValueError
             ''Schema.update_types() argument name has to be an existing column name.'')"
  using assms
proof (induction kwargs arbitrary: cols)
  case Nil
  then show ?case by simp
next
  case (Cons p kwargs)
  obtain k t where p: "p = (k, t)" by (cases p)
  show ?case
  proof (cases "map_of cols k")
    case None
    then show ?thesis by (simp add: p)
  next
    case (Some c)
    then have kin: "k \<in> fst ` set cols"
      by (metis map_of_eq_None_iff option.distinct(1))
    with Cons.prems have "\<not> set (map fst kwargs)
                             \<subseteq> fst ` set (AList.update k (c\<lparr>cd_dtype := Some (wrap w t)\<rparr>) cols)"
      by (auto simp: p AList.dom_update)
    from Cons.IH [OF this] Some show ?thesis by (simp add: p)
  qed
qed

text \<open>
  \<open>schema_builder\<close> on definitions whose keys are distinct, do not start with two
  underscores and are the definitions' own names: it never raises, and every column
  keeps the attributes of its definition.
\<close>

lemma schema_builder_definitions:
  assumes d: "distinct (map fst cols)"
    and nd: "\<forall>(n, c)\<in>set cols. \<not> startswith n ''__''"
    and nm: "\<forall>(n, c)\<in>set cols. cd_name c = None \<or> cd_name c = Some n"
  shows "schema_builder w repr cols name props =
           Inr \<lparr>schema_name = (case name of
                                 None \<Rightarrow> ''custom_schema('' @ str_list repr (map fst cols) @ '')''
                               | Some n \<Rightarrow> n),
                annotations = map (\<lambda>(n, c). (n, case cd_dtype c of
                                                   Some d \<Rightarrow> DT d
                                                 | None \<Rightarrow> Native Py_Any)) cols,
                namespace = map (\<lambda>(n, c). (n, Definition c)) cols,
                properties = \<lparr>append_only = append_only props\<rparr>,
                columns = map (\<lambda>(n, c). (n, \<lparr>cs_primary_key = cd_primary_key c,
                                                cs_default_value = cd_default_value c,
                                                cs_dtype = (case cd_dtype c of
                                                              Some d \<Rightarrow> d
                                                            | None \<Rightarrow> w Py_Any),
                                                cs_name = n,
                                                cs_append_only = append_only props\<rparr>)) cols\<rparr>"
proof -
  let ?annots = "map (\<lambda>(n, c). (n, case cd_dtype c of Some d \<Rightarrow> DT d
                                   | None \<Rightarrow> Native Py_Any)) cols"
  let ?ns = "map (\<lambda>(n, c). (n, Definition c)) cols"
  let ?rs = "map (\<lambda>(n, c). (n, \<lparr>cs_primary_key = cd_primary_key c,
                                   cs_default_value = cd_default_value c,
                                   cs_dtype = (case cd_dtype c of Some d \<Rightarrow> d | None \<Rightarrow> w Py_Any),
                                   cs_name = n, cs_append_only = append_only props\<rparr>)) cols"
  have ka: "map fst ?annots = map fst cols" and kn: "map fst ?ns = map fst cols"
    and kr: "map fst ?rs = map fst cols"
    by (simp_all add: case_prod_unfold comp_def)
  have da: "distinct (map fst ?annots)" using d by (simp only: ka)
  have f: "cls_fields ?ns = ?ns"
    unfolding cls_fields_def using nd by (auto simp: filter_id_conv)
  have look: "map_of ?ns n = Some (Definition c)" if "(n, c) \<in> set cols" for n c
  proof -
    have "distinct (map fst ?ns)" using d by (simp only: kn)
    moreover have "(n, Definition c) \<in> set ?ns" using that by force
    ultimately show ?thesis by (rule map_of_is_SomeI)
  qed
  have "map (\<lambda>(n, a). resolve w (append_only props) n a (map_of ?ns n)) ?annots = map Inr ?rs"
    unfolding map_map
  proof (rule map_cong [OF refl])
    fix x assume x: "x \<in> set cols"
    obtain n c where nc: "x = (n, c)" by (cases x)
    from x nm have "cd_name c = None \<or> cd_name c = Some n" by (auto simp: nc)
    then show "((\<lambda>(n, a). resolve w (append_only props) n a (map_of ?ns n))
                  \<circ> (\<lambda>(n, c). (n, case cd_dtype c of Some d \<Rightarrow> DT d | None \<Rightarrow> Native Py_Any))) x
               = (Inr \<circ> (\<lambda>(n, c). (n, \<lparr>cs_primary_key = cd_primary_key c,
                                         cs_default_value = cd_default_value c,
                                         cs_dtype = (case cd_dtype c of Some d \<Rightarrow> d
                                                     | None \<Rightarrow> w Py_Any),
                                         cs_name = n, cs_append_only = append_only props\<rparr>))) x"
      using look [OF x [unfolded nc]]
      by (auto simp: nc resolve_def Let_def split: option.splits)
  qed
  then have c: "collect (map (\<lambda>(n, a). resolve w (append_only props) n a (map_of ?ns n)) ?annots)
                  = Inr ?rs"
    by (simp only: collect_Inr_iff)
  have left: "filter (\<lambda>(k, v). k \<notin> set (map fst ?annots)) ?ns = []"
    unfolding ka by (force simp: filter_empty_conv)
  have fold: "fold (\<lambda>(n, c). AList.update n c) ?rs [] = ?rs"
    using d fold_update_append [of "[]" ?rs] by (simp add: case_prod_unfold comp_def)
  have cc: "create_column_definitions w ?annots ?ns (append_only props) = Inr ?rs"
    unfolding create_column_definitions_def f create_loop_collect [OF da] c
    by (simp only: sum.case prod.case left fold) simp
  show ?thesis
    unfolding schema_builder_def Let_def schema_builder_internal_def SchemaMetaclass_def cc
    by simp
qed

lemma schema_builder_definitions_columns:
  assumes "distinct (map fst cols)"
    and "\<forall>(n, c)\<in>set cols. \<not> startswith n ''__''"
    and "\<forall>(n, c)\<in>set cols. cd_name c = None \<or> cd_name c = Some n"
  shows "\<exists>R. schema_builder w repr cols name props = Inr R
             \<and> properties R = props
             \<and> columns R = map (\<lambda>(n, c). (n, \<lparr>cs_primary_key = cd_primary_key c,
                                                    cs_default_value = cd_default_value c,
                                                    cs_dtype = (case cd_dtype c of
                                                                  Some d \<Rightarrow> d
                                                                | None \<Rightarrow> w Py_Any),
                                                    cs_name = n,
                                                    cs_append_only = append_only props\<rparr>)) cols"
  unfolding schema_builder_definitions [OF assms] by simp

lemma definitions_of_columns:
  assumes "distinct (map fst cols)" and "\<forall>(n, c)\<in>set cols. cs_name c = n"
  shows "fold (\<lambda>col d. AList.update (cs_name col) (to_definition col) d) (map snd cols) []
           = map (\<lambda>(n, c). (n, to_definition c)) cols"
proof -
  have "fold (\<lambda>col d. AList.update (cs_name col) (to_definition col) d) (map snd cols) []
          = fold (\<lambda>(k, v). AList.update k v) (map (\<lambda>(n, c). (cs_name c, to_definition c)) cols) []"
    by (simp add: fold_map comp_def case_prod_unfold)
  also have "map (\<lambda>(n, c). (cs_name c, to_definition c)) cols
               = map (\<lambda>(n, c). (n, to_definition c)) cols"
    using assms(2) by (intro map_cong refl) auto
  also have "fold (\<lambda>(k, v). AList.update k v) (map (\<lambda>(n, c). (n, to_definition c)) cols) []
               = map (\<lambda>(n, c). (n, to_definition c)) cols"
    using assms(1) fold_update_append [of "[]" "map (\<lambda>(n, c). (n, to_definition c)) cols"]
    by (simp add: case_prod_unfold comp_def)
  finally show ?thesis .
qed

text \<open>
  \<open>update_types\<close> on a schema whose column names do not start with two underscores,
  with the columns filed under their own names as the metaclass leaves them: an
  override for a name that is no column raises the \<open>ValueError\<close>; otherwise the result
  has the same columns in the same order, each with its primary-key flag, default value
  and name, the data type replaced where an override names the column, and the
  properties of the schema.
\<close>

theorem update_types_plain_names:
  assumes d: "distinct (map fst (columns S))"
    and nm: "\<forall>(n, c)\<in>set (columns S). cs_name c = n"
    and nd: "\<forall>(n, c)\<in>set (columns S). \<not> startswith n ''__''"
    and dk: "distinct (map fst kwargs)"
  shows "(set (map fst kwargs) \<subseteq> set (keys S) \<longrightarrow>
            (\<exists>R. update_types w repr S kwargs = Inr R
                  \<and> properties R = properties S
                  \<and> columns R =
                      map (\<lambda>(n, c). (n, c\<lparr>cs_dtype := (case map_of kwargs n of
                                                           None \<Rightarrow> cs_dtype c
                                                         | Some t \<Rightarrow> wrap w t),
                                           cs_append_only := append_only (properties S)\<rparr>))
                        (columns S)))
         \<and> (\<not> set (map fst kwargs) \<subseteq> set (keys S) \<longrightarrow>
              update_types w repr S kwargs =
                Inl (ValueError
                  ''Schema.update_types() argument name has to be an existing column name.''))"
proof -
  let ?defs = "map (\<lambda>(n, c). (n, to_definition c)) (columns S)"
  let ?defs' = "map (\<lambda>(n, d). (n, case map_of kwargs n of
                                     None \<Rightarrow> d
                                   | Some t \<Rightarrow> d\<lparr>cd_dtype := Some (wrap w t)\<rparr>)) ?defs"
  have defs: "fold (\<lambda>col d. AList.update (cs_name col) (to_definition col) d)
                (map snd (columns S)) [] = ?defs"
    by (rule definitions_of_columns [OF d nm])
  have kd: "map fst ?defs = map fst (columns S)" and kd': "map fst ?defs' = map fst (columns S)"
    by (simp_all add: case_prod_unfold comp_def)
  have dd: "distinct (map fst ?defs)" using d by (simp only: kd)
  have keys: "fst ` set ?defs = set (keys S)"
    using kd by (metis keys_def set_map)
  have neg: "update_types w repr S kwargs =
               Inl (ValueError
                 ''Schema.update_types() argument name has to be an existing column name.'')"
    if "\<not> set (map fst kwargs) \<subseteq> set (keys S)"
  proof -
    from that have "\<not> set (map fst kwargs) \<subseteq> fst ` set ?defs"
      unfolding keys .
    from update_types_loop_unknown [OF this, of w] show ?thesis
      unfolding update_types_def Let_def defs by simp
  qed
  have pos: "\<exists>R. update_types w repr S kwargs = Inr R
                  \<and> properties R = properties S
                  \<and> columns R =
                      map (\<lambda>(n, c). (n, c\<lparr>cs_dtype := (case map_of kwargs n of
                                                           None \<Rightarrow> cs_dtype c
                                                         | Some t \<Rightarrow> wrap w t),
                                           cs_append_only := append_only (properties S)\<rparr>))
                        (columns S)"
    if sub: "set (map fst kwargs) \<subseteq> set (keys S)"
  proof -
    from sub have "set (map fst kwargs) \<subseteq> fst ` set ?defs"
      unfolding keys .
    then have loop: "update_types_loop w kwargs ?defs = Inr ?defs'"
      by (rule update_types_loop_ok [OF dk dd])
    have d': "distinct (map fst ?defs')" using d by (simp only: kd')
    have nd': "\<forall>(n, c)\<in>set ?defs'. \<not> startswith n ''__''"
      using nd by auto
    have nm': "\<forall>(n, c)\<in>set ?defs'. cd_name c = None \<or> cd_name c = Some n"
      using nm by (auto simp: to_definition_def split: option.splits)
    have cols: "map (\<lambda>(n, c). (n, \<lparr>cs_primary_key = cd_primary_key c,
                                       cs_default_value = cd_default_value c,
                                       cs_dtype = (case cd_dtype c of Some d \<Rightarrow> d
                                                   | None \<Rightarrow> w Py_Any),
                                       cs_name = n,
                                       cs_append_only = append_only (properties S)\<rparr>)) ?defs'
                = map (\<lambda>(n, c). (n, c\<lparr>cs_dtype := (case map_of kwargs n of
                                                         None \<Rightarrow> cs_dtype c
                                                       | Some t \<Rightarrow> wrap w t),
                                         cs_append_only := append_only (properties S)\<rparr>))
                    (columns S)"
      unfolding map_map using nm
      by (intro map_cong refl) (auto simp: to_definition_def split: option.splits)
    have ut: "update_types w repr S kwargs = schema_builder w repr ?defs' None (properties S)"
      unfolding update_types_def Let_def defs loop by (simp only: sum.case)
    from schema_builder_definitions_columns [OF d' nd' nm', of w repr None "properties S"]
    show ?thesis
      unfolding ut cols .
  qed
  from pos neg show ?thesis by blast
qed

text \<open>The two examples of the specification.\<close>

lemma update_types_examples:
  "map_sum id columns
     (update_types wrap_native repr_plain (plain_schema ''S'' [(''x'', INT_dt), (''y'', STR_dt)])
        [(''x'', Native Py_float)])
   = Inr (columns (plain_schema ''S'' [(''x'', FLOAT), (''y'', STR_dt)]))"
  "update_types wrap_native repr_plain (plain_schema ''S'' [(''x'', INT_dt), (''y'', STR_dt)])
     [(''z'', Native Py_float)]
   = Inl (ValueError ''Schema.update_types() argument name has to be an existing column name.'')"
  by code_simp+

end
